theory Spec2Isabelle
  imports Main
begin

section \<open>The ethernet interface namespace of the firewall client (netw/eth/eth.go)\<close>

text \<open>
  The Go package \<^verbatim>\<open>eth\<close> translates between the XML schema of a firewall
  (two revisions, \<^verbatim>\<open>v1\<close> and \<^verbatim>\<open>v2\<close>) and one version independent record,
  \<^verbatim>\<open>Entry\<close>. This theory embeds its structs as records, its functions as HOL
  functions, and the calls it makes on its connection as an explicit log.

  Conventions of the embedding:
  \<^item> a Go pointer \<^verbatim>\<open>*T\<close> is \<open>T option\<close> (\<open>None\<close> is \<^verbatim>\<open>nil\<close>);
  \<^item> a Go slice held in a struct field is \<open>'a list option\<close> (\<open>None\<close> is the
    \<^verbatim>\<open>nil\<close> slice, the zero value of the field);
  \<^item> a Go map is \<open>(string \<rightharpoonup> string) option\<close> (\<open>None\<close> is the \<^verbatim>\<open>nil\<close> map:
    reading it finds nothing, assigning into it panics);
  \<^item> Go's \<^verbatim>\<open>int\<close> is \<open>int\<close>: the package only copies these numbers and
    compares them with zero, so their width never matters;
  \<^item> a runtime panic is the left summand of a sum type.
  Field names shared by several structs are written with the struct's name in
  front (\<open>Entry.Name\<close>, \<open>entry_v1.Name\<close>).
\<close>

subsection \<open>Library types the package uses\<close>

text \<open>\<^verbatim>\<open>encoding/xml.Name\<close>: the namespace and the local name of an element.\<close>

record xml_Name =
  Space :: string
  Local :: string

definition xml_Name_zero :: xml_Name where
  "xml_Name_zero = \<lparr>Space = [], Local = []\<rparr>"

text \<open>
  \<^verbatim>\<open>util.RawXml\<close>: an XML sub-tree kept as text. The package reads its field
  \<^verbatim>\<open>Text\<close> and builds it as \<^verbatim>\<open>util.RawXml{text}\<close>, so it has this one field.
\<close>

record RawXml =
  Text :: string

subsection \<open>The normalized record\<close>

record Entry =
  Name :: string
  Mode :: string
  StaticIps :: "string list option"
  EnableDhcp :: bool
  CreateDhcpDefaultRoute :: bool
  DhcpDefaultRouteMetric :: int
  Ipv6Enabled :: bool
  ManagementProfile :: string
  Mtu :: int
  AdjustTcpMss :: bool
  NetflowProfile :: string
  LldpEnabled :: bool
  LldpProfile :: string
  LinkSpeed :: string
  LinkDuplex :: string
  LinkState :: string
  AggregateGroup :: string
  Comment :: string
  Ipv4MssAdjust :: int
  Ipv6MssAdjust :: int
  raw :: "(string \<rightharpoonup> string) option"

text \<open>\<^verbatim>\<open>Entry{}\<close>: every field at its zero value.\<close>

definition Entry_zero :: Entry where
  "Entry_zero = \<lparr>Name = [], Mode = [], StaticIps = None, EnableDhcp = False,
     CreateDhcpDefaultRoute = False, DhcpDefaultRouteMetric = 0, Ipv6Enabled = False,
     ManagementProfile = [], Mtu = 0, AdjustTcpMss = False, NetflowProfile = [],
     LldpEnabled = False, LldpProfile = [], LinkSpeed = [], LinkDuplex = [],
     LinkState = [], AggregateGroup = [], Comment = [], Ipv4MssAdjust = 0,
     Ipv6MssAdjust = 0, raw = None\<rparr>"

subsection \<open>The wire structs\<close>

type_synonym emptyMode = unit

record otherMode =
  LldpEnabled :: string
  LldpProfile :: string
  NetflowProfile :: string
  Subinterface :: "RawXml option"

record ipv6 =
  Enabled :: string
  Address :: "RawXml option"

record dhcpSettings =
  Enable :: string
  CreateDefaultRoute :: string
  Metric :: int

record 'ent l3Mode_v1 =
  Ipv6 :: ipv6
  ManagementProfile :: string
  Mtu :: int
  NetflowProfile :: string
  AdjustTcpMss :: string
  StaticIps :: "'ent option"
  Dhcp :: "dhcpSettings option"
  Arp :: "RawXml option"
  Subinterface :: "RawXml option"

record 'ent entry_v1 =
  XMLName :: xml_Name
  Name :: string
  ModeL2 :: "otherMode option"
  ModeL3 :: "'ent l3Mode_v1 option"
  ModeVwire :: "otherMode option"
  TapMode :: "emptyMode option"
  HaMode :: "emptyMode option"
  DecryptMirrorMode :: "emptyMode option"
  AggregateGroupMode :: "emptyMode option"
  LinkSpeed :: string
  LinkDuplex :: string
  LinkState :: string
  Comment :: string

record 'ent container_v1 =
  Answer :: "'ent entry_v1"

record 'ent l3Mode_v2 =
  Ipv6 :: ipv6
  ManagementProfile :: string
  Mtu :: int
  NetflowProfile :: string
  AdjustTcpMss :: string
  Ipv4MssAdjust :: int
  Ipv6MssAdjust :: int
  StaticIps :: "'ent option"
  Dhcp :: "dhcpSettings option"
  Arp :: "RawXml option"
  Subinterface :: "RawXml option"

record 'ent entry_v2 =
  XMLName :: xml_Name
  Name :: string
  ModeL3 :: "'ent l3Mode_v2 option"
  ModeL2 :: "otherMode option"
  ModeVwire :: "otherMode option"
  TapMode :: "emptyMode option"
  HaMode :: "emptyMode option"
  DecryptMirrorMode :: "emptyMode option"
  AggregateGroupMode :: "emptyMode option"
  LinkSpeed :: string
  LinkDuplex :: string
  LinkState :: string
  Comment :: string

record 'ent container_v2 =
  Answer :: "'ent entry_v2"

text \<open>The zero values a composite literal starts from.\<close>

definition ipv6_zero :: ipv6 where
  "ipv6_zero = \<lparr>Enabled = [], Address = None\<rparr>"

definition otherMode_zero :: otherMode where
  "otherMode_zero = \<lparr>otherMode.LldpEnabled = [], otherMode.LldpProfile = [],
     otherMode.NetflowProfile = [], otherMode.Subinterface = None\<rparr>"

definition l3Mode_v1_zero :: "'ent l3Mode_v1" where
  "l3Mode_v1_zero = \<lparr>l3Mode_v1.Ipv6 = ipv6_zero, l3Mode_v1.ManagementProfile = [],
     l3Mode_v1.Mtu = 0, l3Mode_v1.NetflowProfile = [], l3Mode_v1.AdjustTcpMss = [],
     l3Mode_v1.StaticIps = None, l3Mode_v1.Dhcp = None, l3Mode_v1.Arp = None,
     l3Mode_v1.Subinterface = None\<rparr>"

definition l3Mode_v2_zero :: "'ent l3Mode_v2" where
  "l3Mode_v2_zero = \<lparr>l3Mode_v2.Ipv6 = ipv6_zero, l3Mode_v2.ManagementProfile = [],
     l3Mode_v2.Mtu = 0, l3Mode_v2.NetflowProfile = [], l3Mode_v2.AdjustTcpMss = [],
     l3Mode_v2.Ipv4MssAdjust = 0, l3Mode_v2.Ipv6MssAdjust = 0,
     l3Mode_v2.StaticIps = None, l3Mode_v2.Dhcp = None, l3Mode_v2.Arp = None,
     l3Mode_v2.Subinterface = None\<rparr>"

definition entry_v1_zero :: "'ent entry_v1" where
  "entry_v1_zero = \<lparr>entry_v1.XMLName = xml_Name_zero, entry_v1.Name = [],
     entry_v1.ModeL2 = None, entry_v1.ModeL3 = None, entry_v1.ModeVwire = None,
     entry_v1.TapMode = None, entry_v1.HaMode = None, entry_v1.DecryptMirrorMode = None,
     entry_v1.AggregateGroupMode = None, entry_v1.LinkSpeed = [], entry_v1.LinkDuplex = [],
     entry_v1.LinkState = [], entry_v1.Comment = []\<rparr>"

definition entry_v2_zero :: "'ent entry_v2" where
  "entry_v2_zero = \<lparr>entry_v2.XMLName = xml_Name_zero, entry_v2.Name = [],
     entry_v2.ModeL3 = None, entry_v2.ModeL2 = None, entry_v2.ModeVwire = None,
     entry_v2.TapMode = None, entry_v2.HaMode = None, entry_v2.DecryptMirrorMode = None,
     entry_v2.AggregateGroupMode = None, entry_v2.LinkSpeed = [], entry_v2.LinkDuplex = [],
     entry_v2.LinkState = [], entry_v2.Comment = []\<rparr>"

definition container_v1_zero :: "'ent container_v1" where
  "container_v1_zero = \<lparr>container_v1.Answer = entry_v1_zero\<rparr>"

definition container_v2_zero :: "'ent container_v2" where
  "container_v2_zero = \<lparr>container_v2.Answer = entry_v2_zero\<rparr>"

subsection \<open>Interface values and the package util\<close>

text \<open>
  A specifier returns \<^verbatim>\<open>interface{}\<close>; the value inside is an \<^verbatim>\<open>entry_v1\<close>
  or an \<^verbatim>\<open>entry_v2\<close>. A \<^verbatim>\<open>normalizer\<close> is a pointer to one of the two
  containers.
\<close>

datatype 'ent wire = Wire_v1 "'ent entry_v1" | Wire_v2 "'ent entry_v2"

datatype 'ent normalizer = Container_v1 "'ent container_v1" | Container_v2 "'ent container_v2"

text \<open>
  \<^verbatim>\<open>util.BulkElement\<close>: the element \<^verbatim>\<open>Set\<close> collects its entries in. The
  package sets its fields \<^verbatim>\<open>XMLName\<close> and \<^verbatim>\<open>Data\<close>.
\<close>

record 'ent BulkElement =
  XMLName :: xml_Name
  Data :: "'ent wire list"

text \<open>
  The functions of the package \<^verbatim>\<open>util\<close> are not part of eth.go. They are
  parameters of the embedding, collected in a record that plays the role of the
  package: \<open>AsBool u s\<close> is \<^verbatim>\<open>util.AsBool(s)\<close>. The type \<open>'ent\<close> is
  \<^verbatim>\<open>util.Entry\<close> (the wire form of a list of addresses) and \<open>'cfg\<close> is what
  \<^verbatim>\<open>BulkElement.Config()\<close> returns. \<^verbatim>\<open>AsEntryXpath\<close> takes a slice of names it
  only reads, so there the \<^verbatim>\<open>nil\<close> slice is the empty list.
\<close>

record ('ent, 'cfg) util =
  AsBool :: "string \<Rightarrow> bool"
  YesNo :: "bool \<Rightarrow> string"
  EntToStr :: "'ent option \<Rightarrow> string list option"
  StrToEnt :: "string list option \<Rightarrow> 'ent option"
  CleanRawXml :: "string \<Rightarrow> string"
  AsEntryXpath :: "string list \<Rightarrow> string"
  Config :: "'ent BulkElement \<Rightarrow> 'cfg"

subsection \<open>The fragments map\<close>

datatype panic = NilMapAssignment

text \<open>
  \<^verbatim>\<open>ans.raw[k] = v\<close>. Go panics with "assignment to entry in nil map" when the
  map was never made.
\<close>

definition raw_assign :: "Entry \<Rightarrow> string \<Rightarrow> string \<Rightarrow> panic + Entry" where
  "raw_assign ans k v =
     (case Entry.raw ans of
        None \<Rightarrow> Inl NilMapAssignment
      | Some m \<Rightarrow> Inr (ans\<lparr>Entry.raw := Some (m(k \<mapsto> v))\<rparr>))"

text \<open>\<^verbatim>\<open>text, present := e.raw[k]\<close>. Reading the nil map finds nothing.\<close>

definition raw_lookup :: "Entry \<Rightarrow> string \<Rightarrow> string option" where
  "raw_lookup e k = (case Entry.raw e of None \<Rightarrow> None | Some m \<Rightarrow> m k)"

text \<open>Sequencing of steps that may panic: the first panic ends the function.\<close>

definition and_then :: "panic + 'a \<Rightarrow> ('a \<Rightarrow> panic + 'b) \<Rightarrow> panic + 'b" where
  "and_then r f = (case r of Inl p \<Rightarrow> Inl p | Inr x \<Rightarrow> f x)"

text \<open>
  \<^verbatim>\<open>if x != nil { ans.raw[k] = util.CleanRawXml(x.Text) }\<close>, the statement both
  \<^verbatim>\<open>Normalize\<close> functions use for each fragment.
\<close>

definition keep_fragment ::
  "('ent, 'cfg) util \<Rightarrow> RawXml option \<Rightarrow> string \<Rightarrow> Entry \<Rightarrow> panic + Entry" where
  "keep_fragment u x k ans =
     (case x of
        None \<Rightarrow> Inr ans
      | Some r \<Rightarrow> raw_assign ans k (CleanRawXml u (Text r)))"

subsection \<open>Normalize\<close>

definition Normalize_v1 :: "('ent, 'cfg) util \<Rightarrow> 'ent container_v1 \<Rightarrow> panic + Entry" where
  "Normalize_v1 u obj =
     (let a = container_v1.Answer obj;
          ans = Entry_zero\<lparr>Entry.Name := entry_v1.Name a,
                  Entry.LinkSpeed := entry_v1.LinkSpeed a,
                  Entry.LinkDuplex := entry_v1.LinkDuplex a,
                  Entry.LinkState := entry_v1.LinkState a,
                  Entry.Comment := entry_v1.Comment a\<rparr>
      in
      case entry_v1.ModeL3 a of
        Some l3 \<Rightarrow>
          (let ans = ans\<lparr>Entry.Mode := ''layer3'',
                       Entry.Ipv6Enabled := AsBool u (Enabled (l3Mode_v1.Ipv6 l3)),
                       Entry.ManagementProfile := l3Mode_v1.ManagementProfile l3,
                       Entry.Mtu := l3Mode_v1.Mtu l3,
                       Entry.NetflowProfile := l3Mode_v1.NetflowProfile l3,
                       Entry.AdjustTcpMss := AsBool u (l3Mode_v1.AdjustTcpMss l3),
                       Entry.StaticIps := EntToStr u (l3Mode_v1.StaticIps l3)\<rparr>;
               ans = (case l3Mode_v1.Dhcp l3 of
                        None \<Rightarrow> ans
                      | Some d \<Rightarrow>
                          ans\<lparr>Entry.EnableDhcp := AsBool u (Enable d),
                              Entry.CreateDhcpDefaultRoute := AsBool u (CreateDefaultRoute d),
                              Entry.DhcpDefaultRouteMetric := Metric d\<rparr>)
           in
           and_then (keep_fragment u (l3Mode_v1.Arp l3) ''arp'' ans) (\<lambda>ans.
           and_then (keep_fragment u (l3Mode_v1.Subinterface l3) ''l3subinterface'' ans) (\<lambda>ans.
           and_then (keep_fragment u (Address (l3Mode_v1.Ipv6 l3)) ''ipv6'' ans) (\<lambda>ans.
           Inr ans))))
      | None \<Rightarrow>
      (case entry_v1.ModeL2 a of
        Some l2 \<Rightarrow>
          (let ans = ans\<lparr>Entry.Mode := ''layer2'',
                       Entry.LldpEnabled := AsBool u (otherMode.LldpEnabled l2),
                       Entry.LldpProfile := otherMode.LldpProfile l2,
                       Entry.NetflowProfile := otherMode.NetflowProfile l2\<rparr>
           in
           and_then (keep_fragment u (otherMode.Subinterface l2) ''l2subinterface'' ans) (\<lambda>ans.
           Inr ans))
      | None \<Rightarrow>
      (case entry_v1.ModeVwire a of
        Some vw \<Rightarrow>
          Inr (ans\<lparr>Entry.Mode := ''virtual-wire'',
                   Entry.LldpEnabled := AsBool u (otherMode.LldpEnabled vw),
                   Entry.LldpProfile := otherMode.LldpProfile vw,
                   Entry.NetflowProfile := otherMode.NetflowProfile vw\<rparr>)
      | None \<Rightarrow>
      (case entry_v1.TapMode a of
        Some _ \<Rightarrow> Inr (ans\<lparr>Entry.Mode := ''tap''\<rparr>)
      | None \<Rightarrow>
      (case entry_v1.HaMode a of
        Some _ \<Rightarrow> Inr (ans\<lparr>Entry.Mode := ''ha''\<rparr>)
      | None \<Rightarrow>
      (case entry_v1.DecryptMirrorMode a of
        Some _ \<Rightarrow> Inr (ans\<lparr>Entry.Mode := ''decrypt-mirror''\<rparr>)
      | None \<Rightarrow>
      (case entry_v1.AggregateGroupMode a of
        Some _ \<Rightarrow> Inr (ans\<lparr>Entry.Mode := ''aggregate-group''\<rparr>)
      | None \<Rightarrow> Inr ans)))))))"

definition Normalize_v2 :: "('ent, 'cfg) util \<Rightarrow> 'ent container_v2 \<Rightarrow> panic + Entry" where
  "Normalize_v2 u obj =
     (let a = container_v2.Answer obj;
          ans = Entry_zero\<lparr>Entry.Name := entry_v2.Name a,
                  Entry.LinkSpeed := entry_v2.LinkSpeed a,
                  Entry.LinkDuplex := entry_v2.LinkDuplex a,
                  Entry.LinkState := entry_v2.LinkState a,
                  Entry.Comment := entry_v2.Comment a\<rparr>;
          ans = ans\<lparr>Entry.raw := Some Map.empty\<rparr>
      in
      case entry_v2.ModeL3 a of
        Some l3 \<Rightarrow>
          (let ans = ans\<lparr>Entry.Mode := ''layer3'',
                       Entry.Ipv6Enabled := AsBool u (Enabled (l3Mode_v2.Ipv6 l3)),
                       Entry.ManagementProfile := l3Mode_v2.ManagementProfile l3,
                       Entry.Mtu := l3Mode_v2.Mtu l3,
                       Entry.NetflowProfile := l3Mode_v2.NetflowProfile l3,
                       Entry.AdjustTcpMss := AsBool u (l3Mode_v2.AdjustTcpMss l3),
                       Entry.Ipv4MssAdjust := l3Mode_v2.Ipv4MssAdjust l3,
                       Entry.Ipv6MssAdjust := l3Mode_v2.Ipv6MssAdjust l3,
                       Entry.StaticIps := EntToStr u (l3Mode_v2.StaticIps l3)\<rparr>;
               ans = (case l3Mode_v2.Dhcp l3 of
                        None \<Rightarrow> ans
                      | Some d \<Rightarrow>
                          ans\<lparr>Entry.EnableDhcp := AsBool u (Enable d),
                              Entry.CreateDhcpDefaultRoute := AsBool u (CreateDefaultRoute d),
                              Entry.DhcpDefaultRouteMetric := Metric d\<rparr>)
           in
           and_then (keep_fragment u (l3Mode_v2.Arp l3) ''arp'' ans) (\<lambda>ans.
           and_then (keep_fragment u (l3Mode_v2.Subinterface l3) ''l3subinterface'' ans) (\<lambda>ans.
           and_then (keep_fragment u (Address (l3Mode_v2.Ipv6 l3)) ''ipv6'' ans) (\<lambda>ans.
           Inr ans))))
      | None \<Rightarrow>
      (case entry_v2.ModeL2 a of
        Some l2 \<Rightarrow>
          (let ans = ans\<lparr>Entry.Mode := ''layer2'',
                       Entry.LldpEnabled := AsBool u (otherMode.LldpEnabled l2),
                       Entry.LldpProfile := otherMode.LldpProfile l2,
                       Entry.NetflowProfile := otherMode.NetflowProfile l2\<rparr>
           in
           and_then (keep_fragment u (otherMode.Subinterface l2) ''l2subinterface'' ans) (\<lambda>ans.
           Inr ans))
      | None \<Rightarrow>
      (case entry_v2.ModeVwire a of
        Some vw \<Rightarrow>
          Inr (ans\<lparr>Entry.Mode := ''virtual-wire'',
                   Entry.LldpEnabled := AsBool u (otherMode.LldpEnabled vw),
                   Entry.LldpProfile := otherMode.LldpProfile vw,
                   Entry.NetflowProfile := otherMode.NetflowProfile vw\<rparr>)
      | None \<Rightarrow>
      (case entry_v2.TapMode a of
        Some _ \<Rightarrow> Inr (ans\<lparr>Entry.Mode := ''tap''\<rparr>)
      | None \<Rightarrow>
      (case entry_v2.HaMode a of
        Some _ \<Rightarrow> Inr (ans\<lparr>Entry.Mode := ''ha''\<rparr>)
      | None \<Rightarrow>
      (case entry_v2.DecryptMirrorMode a of
        Some _ \<Rightarrow> Inr (ans\<lparr>Entry.Mode := ''decrypt-mirror''\<rparr>)
      | None \<Rightarrow>
      (case entry_v2.AggregateGroupMode a of
        Some _ \<Rightarrow> Inr (ans\<lparr>Entry.Mode := ''aggregate-group''\<rparr>)
      | None \<Rightarrow> Inr ans)))))))"

subsection \<open>Specify\<close>

text \<open>
  The \<^verbatim>\<open>switch e.Mode\<close> compares strings, so it is a chain of tests in the
  order of its cases.
\<close>

definition specify_v1 :: "('ent, 'cfg) util \<Rightarrow> Entry \<Rightarrow> 'ent entry_v1" where
  "specify_v1 u e =
     (let ans = entry_v1_zero\<lparr>entry_v1.Name := Entry.Name e,
                  entry_v1.LinkSpeed := Entry.LinkSpeed e,
                  entry_v1.LinkDuplex := Entry.LinkDuplex e,
                  entry_v1.LinkState := Entry.LinkState e,
                  entry_v1.Comment := Entry.Comment e\<rparr>
      in
      if Entry.Mode e = ''layer3'' then
        (let i = l3Mode_v1_zero\<lparr>l3Mode_v1.StaticIps := StrToEnt u (Entry.StaticIps e),
                     l3Mode_v1.ManagementProfile := Entry.ManagementProfile e,
                     l3Mode_v1.Mtu := Entry.Mtu e,
                     l3Mode_v1.NetflowProfile := Entry.NetflowProfile e,
                     l3Mode_v1.AdjustTcpMss := YesNo u (Entry.AdjustTcpMss e)\<rparr>;
             i = i\<lparr>l3Mode_v1.Ipv6 := (l3Mode_v1.Ipv6 i)\<lparr>Enabled := YesNo u (Entry.Ipv6Enabled e)\<rparr>\<rparr>;
             i = (if Entry.EnableDhcp e \<or> Entry.CreateDhcpDefaultRoute e
                     \<or> Entry.DhcpDefaultRouteMetric e \<noteq> 0
                  then i\<lparr>l3Mode_v1.Dhcp :=
                         Some \<lparr>Enable = YesNo u (Entry.EnableDhcp e),
                               CreateDefaultRoute = YesNo u (Entry.CreateDhcpDefaultRoute e),
                               Metric = Entry.DhcpDefaultRouteMetric e\<rparr>\<rparr>
                  else i);
             i = (case raw_lookup e ''arp'' of
                    Some text \<Rightarrow> i\<lparr>l3Mode_v1.Arp := Some \<lparr>Text = text\<rparr>\<rparr>
                  | None \<Rightarrow> i);
             i = (case raw_lookup e ''l3subinterface'' of
                    Some text \<Rightarrow> i\<lparr>l3Mode_v1.Subinterface := Some \<lparr>Text = text\<rparr>\<rparr>
                  | None \<Rightarrow> i);
             i = (case raw_lookup e ''ipv6'' of
                    Some text \<Rightarrow>
                      i\<lparr>l3Mode_v1.Ipv6 := (l3Mode_v1.Ipv6 i)\<lparr>Address := Some \<lparr>Text = text\<rparr>\<rparr>\<rparr>
                  | None \<Rightarrow> i)
         in ans\<lparr>entry_v1.ModeL3 := Some i\<rparr>)
      else if Entry.Mode e = ''layer2'' then
        (let i = otherMode_zero\<lparr>otherMode.LldpEnabled := YesNo u (Entry.LldpEnabled e),
                     otherMode.LldpProfile := Entry.LldpProfile e,
                     otherMode.NetflowProfile := Entry.NetflowProfile e\<rparr>;
             i = (case raw_lookup e ''l2subinterface'' of
                    Some text \<Rightarrow> i\<lparr>otherMode.Subinterface := Some \<lparr>Text = text\<rparr>\<rparr>
                  | None \<Rightarrow> i)
         in ans\<lparr>entry_v1.ModeL2 := Some i\<rparr>)
      else if Entry.Mode e = ''virtual-wire'' then
        (let i = otherMode_zero\<lparr>otherMode.LldpEnabled := YesNo u (Entry.LldpEnabled e),
                     otherMode.LldpProfile := Entry.LldpProfile e,
                     otherMode.NetflowProfile := Entry.NetflowProfile e\<rparr>
         in ans\<lparr>entry_v1.ModeVwire := Some i\<rparr>)
      else if Entry.Mode e = ''tap'' then ans\<lparr>entry_v1.TapMode := Some ()\<rparr>
      else if Entry.Mode e = ''ha'' then ans\<lparr>entry_v1.HaMode := Some ()\<rparr>
      else if Entry.Mode e = ''decrypt-mirror'' then ans\<lparr>entry_v1.DecryptMirrorMode := Some ()\<rparr>
      else if Entry.Mode e = ''aggregate-group'' then ans\<lparr>entry_v1.AggregateGroupMode := Some ()\<rparr>
      else ans)"

definition specify_v2 :: "('ent, 'cfg) util \<Rightarrow> Entry \<Rightarrow> 'ent entry_v2" where
  "specify_v2 u e =
     (let ans = entry_v2_zero\<lparr>entry_v2.Name := Entry.Name e,
                  entry_v2.LinkSpeed := Entry.LinkSpeed e,
                  entry_v2.LinkDuplex := Entry.LinkDuplex e,
                  entry_v2.LinkState := Entry.LinkState e,
                  entry_v2.Comment := Entry.Comment e\<rparr>
      in
      if Entry.Mode e = ''layer3'' then
        (let i = l3Mode_v2_zero\<lparr>l3Mode_v2.StaticIps := StrToEnt u (Entry.StaticIps e),
                     l3Mode_v2.ManagementProfile := Entry.ManagementProfile e,
                     l3Mode_v2.Mtu := Entry.Mtu e,
                     l3Mode_v2.NetflowProfile := Entry.NetflowProfile e,
                     l3Mode_v2.AdjustTcpMss := YesNo u (Entry.AdjustTcpMss e),
                     l3Mode_v2.Ipv4MssAdjust := Entry.Ipv4MssAdjust e,
                     l3Mode_v2.Ipv6MssAdjust := Entry.Ipv6MssAdjust e\<rparr>;
             i = i\<lparr>l3Mode_v2.Ipv6 := (l3Mode_v2.Ipv6 i)\<lparr>Enabled := YesNo u (Entry.Ipv6Enabled e)\<rparr>\<rparr>;
             i = (if Entry.EnableDhcp e \<or> Entry.CreateDhcpDefaultRoute e
                     \<or> Entry.DhcpDefaultRouteMetric e \<noteq> 0
                  then i\<lparr>l3Mode_v2.Dhcp :=
                         Some \<lparr>Enable = YesNo u (Entry.EnableDhcp e),
                               CreateDefaultRoute = YesNo u (Entry.CreateDhcpDefaultRoute e),
                               Metric = Entry.DhcpDefaultRouteMetric e\<rparr>\<rparr>
                  else i);
             i = (case raw_lookup e ''arp'' of
                    Some text \<Rightarrow> i\<lparr>l3Mode_v2.Arp := Some \<lparr>Text = text\<rparr>\<rparr>
                  | None \<Rightarrow> i);
             i = (case raw_lookup e ''l3subinterface'' of
                    Some text \<Rightarrow> i\<lparr>l3Mode_v2.Subinterface := Some \<lparr>Text = text\<rparr>\<rparr>
                  | None \<Rightarrow> i);
             i = (case raw_lookup e ''ipv6'' of
                    Some text \<Rightarrow>
                      i\<lparr>l3Mode_v2.Ipv6 := (l3Mode_v2.Ipv6 i)\<lparr>Address := Some \<lparr>Text = text\<rparr>\<rparr>\<rparr>
                  | None \<Rightarrow> i)
         in ans\<lparr>entry_v2.ModeL3 := Some i\<rparr>)
      else if Entry.Mode e = ''layer2'' then
        (let i = otherMode_zero\<lparr>otherMode.LldpEnabled := YesNo u (Entry.LldpEnabled e),
                     otherMode.LldpProfile := Entry.LldpProfile e,
                     otherMode.NetflowProfile := Entry.NetflowProfile e\<rparr>;
             i = (case raw_lookup e ''l2subinterface'' of
                    Some text \<Rightarrow> i\<lparr>otherMode.Subinterface := Some \<lparr>Text = text\<rparr>\<rparr>
                  | None \<Rightarrow> i)
         in ans\<lparr>entry_v2.ModeL2 := Some i\<rparr>)
      else if Entry.Mode e = ''virtual-wire'' then
        (let i = otherMode_zero\<lparr>otherMode.LldpEnabled := YesNo u (Entry.LldpEnabled e),
                     otherMode.LldpProfile := Entry.LldpProfile e,
                     otherMode.NetflowProfile := Entry.NetflowProfile e\<rparr>
         in ans\<lparr>entry_v2.ModeVwire := Some i\<rparr>)
      else if Entry.Mode e = ''tap'' then ans\<lparr>entry_v2.TapMode := Some ()\<rparr>
      else if Entry.Mode e = ''ha'' then ans\<lparr>entry_v2.HaMode := Some ()\<rparr>
      else if Entry.Mode e = ''decrypt-mirror'' then ans\<lparr>entry_v2.DecryptMirrorMode := Some ()\<rparr>
      else if Entry.Mode e = ''aggregate-group'' then ans\<lparr>entry_v2.AggregateGroupMode := Some ()\<rparr>
      else ans)"

subsection \<open>Versions\<close>

text \<open>
  Modelled from the spec: the package \<^verbatim>\<open>version\<close> is not part of eth.go, which
  only builds the literal \<^verbatim>\<open>version.Number{7, 1, 0, ""}\<close> and calls \<^verbatim>\<open>Gte\<close>.
  The spec reads \<^verbatim>\<open>v.Gte(w)\<close> as "version \<open>v\<close> is at least version \<open>w\<close>": the
  three numbers are compared in order, the first difference decides, and the
  trailing text takes no part.
\<close>

record Number =
  Major :: int
  Minor :: int
  Patch :: int
  Suffix :: string

definition Gte :: "Number \<Rightarrow> Number \<Rightarrow> bool" where
  "Gte v w =
     (if Major v \<noteq> Major w then Major v > Major w
      else if Minor v \<noteq> Minor w then Minor v > Minor w
      else Patch v \<ge> Patch w)"

subsection \<open>The connection\<close>

text \<open>
  \<^verbatim>\<open>util.XapiClient\<close> is the connection to the device. Every call the package
  makes on it is appended to a log, and the connection answers a call from the
  log of the calls made before it: this is the state that is passed along.
  \<^verbatim>\<open>c.con.Get\<close> and \<^verbatim>\<open>c.con.Show\<close> are passed around as function values; the
  type \<open>verb\<close> names which of the two it is.
\<close>

datatype verb = Verb_Get | Verb_Show

text \<open>An argument of a log message: a string, or a slice of strings.\<close>

datatype fmt_arg = Str string | Strs "string list"

datatype ('ent, 'cfg) call =
    Con_Versioning
  | Con_LogQuery string "fmt_arg list"
  | Con_LogAction string "fmt_arg list"
  | Con_Read verb "string list" "'ent normalizer"
  | Con_EntryListUsing verb "string list"
  | Con_Set "string list" 'cfg
  | Con_Edit "string list" "'ent wire"
  | Con_Delete "string list"
  | Con_ImportInterfaces string "string list"
  | Con_UnimportInterfaces string "string list"

text \<open>
  The answers of the connection. \<open>Read\<close> is \<^verbatim>\<open>Get\<close> or \<^verbatim>\<open>Show\<close> called as
  \<^verbatim>\<open>fn(path, nil, obj)\<close>: it decodes into \<^verbatim>\<open>obj\<close> and returns an error or
  \<^verbatim>\<open>nil\<close>, so its answer is the object after the call and the error. The bytes
  it also returns are dropped by every caller in this package. The type \<open>'err\<close> is
  the errors of the connection.
\<close>

record ('ent, 'cfg, 'err) XapiClient =
  Versioning :: "('ent, 'cfg) call list \<Rightarrow> Number"
  Read :: "('ent, 'cfg) call list \<Rightarrow> verb \<Rightarrow> string list \<Rightarrow> 'ent normalizer
             \<Rightarrow> 'ent normalizer \<times> 'err option"
  EntryListUsing :: "('ent, 'cfg) call list \<Rightarrow> verb \<Rightarrow> string list
             \<Rightarrow> string list \<times> 'err option"
  Set :: "('ent, 'cfg) call list \<Rightarrow> string list \<Rightarrow> 'cfg \<Rightarrow> 'err option"
  Edit :: "('ent, 'cfg) call list \<Rightarrow> string list \<Rightarrow> 'ent wire \<Rightarrow> 'err option"
  Delete :: "('ent, 'cfg) call list \<Rightarrow> string list \<Rightarrow> 'err option"
  ImportInterfaces :: "('ent, 'cfg) call list \<Rightarrow> string \<Rightarrow> string list \<Rightarrow> 'err option"
  UnimportInterfaces :: "('ent, 'cfg) call list \<Rightarrow> string \<Rightarrow> string list \<Rightarrow> 'err option"

subsection \<open>The namespace Eth\<close>

text \<open>
  Every method takes the package \<open>u\<close>, the connection \<open>con\<close> and the log \<open>h\<close> of
  the calls made so far, and returns its result with the log after it.
\<close>

definition Normalize :: "('ent, 'cfg) util \<Rightarrow> 'ent normalizer \<Rightarrow> panic + Entry" where
  "Normalize u obj =
     (case obj of
        Container_v1 c \<Rightarrow> Normalize_v1 u c
      | Container_v2 c \<Rightarrow> Normalize_v2 u c)"

definition Eth_versioning ::
  "('ent, 'cfg) util \<Rightarrow> ('ent, 'cfg, 'err) XapiClient \<Rightarrow> ('ent, 'cfg) call list
     \<Rightarrow> ('ent normalizer \<times> (Entry \<Rightarrow> 'ent wire)) \<times> ('ent, 'cfg) call list" where
  "Eth_versioning u con h =
     (let v = Versioning con h;
          h = h @ [Con_Versioning]
      in
      if Gte v \<lparr>Major = 7, Minor = 1, Patch = 0, Suffix = []\<rparr>
      then ((Container_v2 container_v2_zero, \<lambda>e. Wire_v2 (specify_v2 u e)), h)
      else ((Container_v1 container_v1_zero, \<lambda>e. Wire_v1 (specify_v1 u e)), h))"

definition Eth_xpath :: "('ent, 'cfg) util \<Rightarrow> string list \<Rightarrow> string list" where
  "Eth_xpath u vals =
     [''config'',
      ''devices'',
      AsEntryXpath u [''localhost.localdomain''],
      ''network'',
      ''interface'',
      ''ethernet'',
      AsEntryXpath u vals]"

text \<open>
  \<^verbatim>\<open>details\<close> returns the pair of Go, unless \<^verbatim>\<open>Normalize\<close> panics.
\<close>

definition Eth_details ::
  "('ent, 'cfg) util \<Rightarrow> ('ent, 'cfg, 'err) XapiClient \<Rightarrow> ('ent, 'cfg) call list
     \<Rightarrow> verb \<Rightarrow> string \<Rightarrow> (panic + Entry \<times> 'err option) \<times> ('ent, 'cfg) call list" where
  "Eth_details u con h fn name =
     (let path = Eth_xpath u [name];
          ((obj, _), h) = Eth_versioning u con h;
          (obj', err) = Read con h fn path obj;
          h = h @ [Con_Read fn path obj]
      in
      case err of
        Some x \<Rightarrow> (Inr (Entry_zero, Some x), h)
      | None \<Rightarrow>
          (case Normalize u obj' of
             Inl p \<Rightarrow> (Inl p, h)
           | Inr ans \<Rightarrow> (Inr (ans, None), h)))"

definition Eth_Get ::
  "('ent, 'cfg) util \<Rightarrow> ('ent, 'cfg, 'err) XapiClient \<Rightarrow> ('ent, 'cfg) call list
     \<Rightarrow> string \<Rightarrow> (panic + Entry \<times> 'err option) \<times> ('ent, 'cfg) call list" where
  "Eth_Get u con h name =
     (let h = h @ [Con_LogQuery ''(get) ethernet interface %q'' [Str name]]
      in Eth_details u con h Verb_Get name)"

definition Eth_Show ::
  "('ent, 'cfg) util \<Rightarrow> ('ent, 'cfg, 'err) XapiClient \<Rightarrow> ('ent, 'cfg) call list
     \<Rightarrow> string \<Rightarrow> (panic + Entry \<times> 'err option) \<times> ('ent, 'cfg) call list" where
  "Eth_Show u con h name =
     (let h = h @ [Con_LogQuery ''(show) ethernet interface %q'' [Str name]]
      in Eth_details u con h Verb_Show name)"

definition Eth_ShowList ::
  "('ent, 'cfg) util \<Rightarrow> ('ent, 'cfg, 'err) XapiClient \<Rightarrow> ('ent, 'cfg) call list
     \<Rightarrow> (string list \<times> 'err option) \<times> ('ent, 'cfg) call list" where
  "Eth_ShowList u con h =
     (let h = h @ [Con_LogQuery ''(show) list of ethernet interfaces'' []];
          path = Eth_xpath u [];
          path = take (length path - 1) path
      in (EntryListUsing con h Verb_Show path, h @ [Con_EntryListUsing Verb_Show path]))"

definition Eth_GetList ::
  "('ent, 'cfg) util \<Rightarrow> ('ent, 'cfg, 'err) XapiClient \<Rightarrow> ('ent, 'cfg) call list
     \<Rightarrow> (string list \<times> 'err option) \<times> ('ent, 'cfg) call list" where
  "Eth_GetList u con h =
     (let h = h @ [Con_LogQuery ''(get) list of ethernet interfaces'' []];
          path = Eth_xpath u [];
          path = take (length path - 1) path
      in (EntryListUsing con h Verb_Get path, h @ [Con_EntryListUsing Verb_Get path]))"

definition Eth_Set ::
  "('ent, 'cfg) util \<Rightarrow> ('ent, 'cfg, 'err) XapiClient \<Rightarrow> ('ent, 'cfg) call list
     \<Rightarrow> string \<Rightarrow> Entry list \<Rightarrow> 'err option \<times> ('ent, 'cfg) call list" where
  "Eth_Set u con h vsys e =
     (if length e = 0 then (None, h)
      else
        (let ((_, fn), h) = Eth_versioning u con h;
             d = \<lparr>BulkElement.XMLName = \<lparr>Space = [], Local = ''ethernet''\<rparr>,
                  BulkElement.Data = map fn e\<rparr>;
             names = map Entry.Name e;
             h = h @ [Con_LogAction ''(set) ethernet interfaces: %v'' [Strs names]];
             path = Eth_xpath u names;
             path = (if length e = 1 then take (length path - 1) path
                     else take (length path - 2) path);
             err = Set con h path (Config u d);
             h = h @ [Con_Set path (Config u d)]
         in
         case err of
           Some x \<Rightarrow> (Some x, h)
         | None \<Rightarrow>
             (ImportInterfaces con h vsys names,
              h @ [Con_ImportInterfaces vsys names])))"

definition Eth_Edit ::
  "('ent, 'cfg) util \<Rightarrow> ('ent, 'cfg, 'err) XapiClient \<Rightarrow> ('ent, 'cfg) call list
     \<Rightarrow> string \<Rightarrow> Entry \<Rightarrow> 'err option \<times> ('ent, 'cfg) call list" where
  "Eth_Edit u con h vsys e =
     (let ((_, fn), h) = Eth_versioning u con h;
          h = h @ [Con_LogAction ''(edit) ethernet interface: %v'' [Str (Entry.Name e)]];
          path = Eth_xpath u [Entry.Name e];
          err = Edit con h path (fn e);
          h = h @ [Con_Edit path (fn e)]
      in
      case err of
        Some x \<Rightarrow> (Some x, h)
      | None \<Rightarrow>
          (ImportInterfaces con h vsys [Entry.Name e],
           h @ [Con_ImportInterfaces vsys [Entry.Name e]]))"

text \<open>
  The arguments of \<^verbatim>\<open>Delete\<close> are \<^verbatim>\<open>interface{}\<close> values: a string, an
  \<^verbatim>\<open>Entry\<close>, or a value of any other type \<open>'a\<close>.
\<close>

datatype 'a ident = Ident_string string | Ident_Entry Entry | Ident_other 'a

text \<open>
  An \<^verbatim>\<open>error\<close> that \<^verbatim>\<open>Delete\<close> returns: one of the connection, or the one
  built by \<^verbatim>\<open>fmt.Errorf(format, v)\<close>.
\<close>

datatype ('err, 'a) error = Con_error 'err | Errorf string 'a

text \<open>
  The loop of \<^verbatim>\<open>Delete\<close> over its arguments: the names in order, or the first
  argument that is neither a string nor an \<^verbatim>\<open>Entry\<close>.
\<close>

fun Delete_names :: "'a ident list \<Rightarrow> 'a + string list" where
  "Delete_names [] = Inr []"
| "Delete_names (Ident_string v # es) =
     (case Delete_names es of Inl x \<Rightarrow> Inl x | Inr names \<Rightarrow> Inr (v # names))"
| "Delete_names (Ident_Entry v # es) =
     (case Delete_names es of Inl x \<Rightarrow> Inl x | Inr names \<Rightarrow> Inr (Entry.Name v # names))"
| "Delete_names (Ident_other v # es) = Inl v"

definition Eth_Delete ::
  "('ent, 'cfg) util \<Rightarrow> ('ent, 'cfg, 'err) XapiClient \<Rightarrow> ('ent, 'cfg) call list
     \<Rightarrow> string \<Rightarrow> 'a ident list \<Rightarrow> ('err, 'a) error option \<times> ('ent, 'cfg) call list" where
  "Eth_Delete u con h vsys e =
     (if length e = 0 then (None, h)
      else
        (case Delete_names e of
           Inl v \<Rightarrow> (Some (Errorf ''Unknown type sent to delete: %s'' v), h)
         | Inr names \<Rightarrow>
             (let h = h @ [Con_LogAction ''(delete) ethernet interface(s): %v'' [Strs names]];
                  err = UnimportInterfaces con h vsys names;
                  h = h @ [Con_UnimportInterfaces vsys names]
              in
              case err of
                Some x \<Rightarrow> (Some (Con_error x), h)
              | None \<Rightarrow>
                  (let path = Eth_xpath u names;
                       err = Delete con h path;
                       h = h @ [Con_Delete path]
                   in (map_option Con_error err, h)))))"

section \<open>Vocabulary of the statements\<close>

text \<open>
  The modes of a wire entry in the order Normalize tests them, each with whether
  its sub-object is present, and the first mode of such a list that is present
  (the empty string when none is).
\<close>

fun first_present :: "(string \<times> bool) list \<Rightarrow> string" where
  "first_present [] = []"
| "first_present ((m, p) # ms) = (if p then m else first_present ms)"

definition modes_v1 :: "'ent entry_v1 \<Rightarrow> (string \<times> bool) list" where
  "modes_v1 a =
     [(''layer3'', entry_v1.ModeL3 a \<noteq> None),
      (''layer2'', entry_v1.ModeL2 a \<noteq> None),
      (''virtual-wire'', entry_v1.ModeVwire a \<noteq> None),
      (''tap'', entry_v1.TapMode a \<noteq> None),
      (''ha'', entry_v1.HaMode a \<noteq> None),
      (''decrypt-mirror'', entry_v1.DecryptMirrorMode a \<noteq> None),
      (''aggregate-group'', entry_v1.AggregateGroupMode a \<noteq> None)]"

definition modes_v2 :: "'ent entry_v2 \<Rightarrow> (string \<times> bool) list" where
  "modes_v2 a =
     [(''layer3'', entry_v2.ModeL3 a \<noteq> None),
      (''layer2'', entry_v2.ModeL2 a \<noteq> None),
      (''virtual-wire'', entry_v2.ModeVwire a \<noteq> None),
      (''tap'', entry_v2.TapMode a \<noteq> None),
      (''ha'', entry_v2.HaMode a \<noteq> None),
      (''decrypt-mirror'', entry_v2.DecryptMirrorMode a \<noteq> None),
      (''aggregate-group'', entry_v2.AggregateGroupMode a \<noteq> None)]"

text \<open>
  The fields of a record that belong to layer3 alone are at their zero values, and
  no layer3 fragment is stored.
\<close>

definition layer3_fields_zero :: "Entry \<Rightarrow> bool" where
  "layer3_fields_zero e =
     (Entry.StaticIps e = None \<and> \<not> Entry.EnableDhcp e \<and> \<not> Entry.CreateDhcpDefaultRoute e
      \<and> Entry.DhcpDefaultRouteMetric e = 0 \<and> \<not> Entry.Ipv6Enabled e
      \<and> Entry.ManagementProfile e = [] \<and> Entry.Mtu e = 0 \<and> \<not> Entry.AdjustTcpMss e
      \<and> Entry.Ipv4MssAdjust e = 0 \<and> Entry.Ipv6MssAdjust e = 0
      \<and> raw_lookup e ''arp'' = None \<and> raw_lookup e ''l3subinterface'' = None
      \<and> raw_lookup e ''ipv6'' = None)"

text \<open>
  Every field that belongs to a mode other than the record's own is at its zero
  value: the layer3 fields unless the mode is layer3, the LLDP fields unless it is
  layer2 or virtual-wire, the layer2 fragment unless it is layer2, the netflow
  profile (which layer3, layer2 and virtual-wire share) unless it is one of these
  three; \<^verbatim>\<open>AggregateGroup\<close> is never set.
\<close>

definition other_modes_zero :: "Entry \<Rightarrow> bool" where
  "other_modes_zero e =
     ((Entry.Mode e \<noteq> ''layer3'' \<longrightarrow> layer3_fields_zero e)
      \<and> (Entry.Mode e \<noteq> ''layer2'' \<and> Entry.Mode e \<noteq> ''virtual-wire''
           \<longrightarrow> \<not> Entry.LldpEnabled e \<and> Entry.LldpProfile e = [])
      \<and> (Entry.Mode e \<noteq> ''layer2'' \<longrightarrow> raw_lookup e ''l2subinterface'' = None)
      \<and> (Entry.Mode e \<noteq> ''layer3'' \<and> Entry.Mode e \<noteq> ''layer2''
             \<and> Entry.Mode e \<noteq> ''virtual-wire''
           \<longrightarrow> Entry.NetflowProfile e = [])
      \<and> Entry.AggregateGroup e = [])"

text \<open>The fragments of the mode that \<^verbatim>\<open>container_v1.Normalize\<close> selects.\<close>

definition fragments_v1 :: "'ent entry_v1 \<Rightarrow> RawXml option list" where
  "fragments_v1 a =
     (case entry_v1.ModeL3 a of
        Some l3 \<Rightarrow> [l3Mode_v1.Arp l3, l3Mode_v1.Subinterface l3, Address (l3Mode_v1.Ipv6 l3)]
      | None \<Rightarrow>
          (case entry_v1.ModeL2 a of
             Some l2 \<Rightarrow> [otherMode.Subinterface l2]
           | None \<Rightarrow> []))"

text \<open>The version is at least 7.1.0, written out on the three numbers.\<close>

definition at_least_7_1_0 :: "Number \<Rightarrow> bool" where
  "at_least_7_1_0 v =
     (7 < Major v \<or> (Major v = 7 \<and> (1 < Minor v \<or> (Minor v = 1 \<and> 0 \<le> Patch v))))"

text \<open>
  The answer of the connection to the read that \<^verbatim>\<open>details\<close> makes: the object it
  decoded into and its error.
\<close>

definition details_read ::
  "('ent, 'cfg) util \<Rightarrow> ('ent, 'cfg, 'err) XapiClient \<Rightarrow> ('ent, 'cfg) call list
     \<Rightarrow> verb \<Rightarrow> string \<Rightarrow> 'ent normalizer \<times> 'err option" where
  "details_read u con h fn name =
     (let ((obj, _), h) = Eth_versioning u con h
      in Read con h fn (Eth_xpath u [name]) obj)"

text \<open>
  The name an argument of \<^verbatim>\<open>Delete\<close> stands for, and the value of an argument
  that is neither a string nor an \<^verbatim>\<open>Entry\<close>.
\<close>

fun name_of :: "'a ident \<Rightarrow> string option" where
  "name_of (Ident_string v) = Some v"
| "name_of (Ident_Entry v) = Some (Entry.Name v)"
| "name_of (Ident_other v) = None"

fun other_value :: "'a ident \<Rightarrow> 'a option" where
  "other_value (Ident_string v) = None"
| "other_value (Ident_Entry v) = None"
| "other_value (Ident_other v) = Some v"

text \<open>The paths of the writes (\<^verbatim>\<open>con.Set\<close>) in a log.\<close>

fun Set_paths :: "('ent, 'cfg) call list \<Rightarrow> string list list" where
  "Set_paths [] = []"
| "Set_paths (Con_Set p c # cs) = p # Set_paths cs"
| "Set_paths (_ # cs) = Set_paths cs"

text \<open>
  The path of one named interface, as \<^verbatim>\<open>details\<close> (for \<^verbatim>\<open>Get\<close> and \<^verbatim>\<open>Show\<close>)
  and \<^verbatim>\<open>Edit\<close> build it, and the path of the collection of ethernet interfaces, as
  \<^verbatim>\<open>GetList\<close> and \<^verbatim>\<open>ShowList\<close> build it.
\<close>

definition single_entry_path :: "('ent, 'cfg) util \<Rightarrow> string \<Rightarrow> string list" where
  "single_entry_path u name = Eth_xpath u [name]"

definition collection_path :: "('ent, 'cfg) util \<Rightarrow> string list" where
  "collection_path u = (let path = Eth_xpath u [] in take (length path - 1) path)"

text \<open>Exactly one of the listed modes is present: the wire object is well formed.\<close>

definition exactly_one_mode :: "(string \<times> bool) list \<Rightarrow> bool" where
  "exactly_one_mode ms = (length (filter snd ms) = 1)"

text \<open>
  A yes/no text that the two conversions reproduce: with the conversions the spec
  describes, the texts "yes" and "no".
\<close>

definition yes_no :: "('ent, 'cfg) util \<Rightarrow> string \<Rightarrow> bool" where
  "yes_no u s = (YesNo u (AsBool u s) = s)"

text \<open>
  A DHCP block that specify builds again: its flags are yes/no texts and not all
  three of its fields are off or zero.
\<close>

definition dhcp_kept :: "('ent, 'cfg) util \<Rightarrow> dhcpSettings option \<Rightarrow> bool" where
  "dhcp_kept u x =
     (case x of
        None \<Rightarrow> True
      | Some d \<Rightarrow>
          yes_no u (Enable d) \<and> yes_no u (CreateDefaultRoute d)
          \<and> (AsBool u (Enable d) \<or> AsBool u (CreateDefaultRoute d) \<or> Metric d \<noteq> 0))"

text \<open>A fragment whose text the cleaning step leaves as it is.\<close>

definition fragment_kept :: "('ent, 'cfg) util \<Rightarrow> RawXml option \<Rightarrow> bool" where
  "fragment_kept u x = (case x of None \<Rightarrow> True | Some r \<Rightarrow> CleanRawXml u (Text r) = Text r)"

text \<open>
  The v2 wire objects that specify after Normalize reproduces: well formed, with
  yes/no texts in the flags, a list of addresses that the two list conversions
  reproduce, a DHCP block that is built again, fragments that cleaning leaves
  alone, and no subinterfaces under virtual-wire (which neither function handles).
\<close>

definition reproducible_v2 :: "('ent, 'cfg) util \<Rightarrow> 'ent entry_v2 \<Rightarrow> bool" where
  "reproducible_v2 u a =
     (exactly_one_mode (modes_v2 a)
      \<and> (case entry_v2.ModeL3 a of
           None \<Rightarrow> True
         | Some l3 \<Rightarrow>
             yes_no u (Enabled (l3Mode_v2.Ipv6 l3)) \<and> yes_no u (l3Mode_v2.AdjustTcpMss l3)
             \<and> StrToEnt u (EntToStr u (l3Mode_v2.StaticIps l3)) = l3Mode_v2.StaticIps l3
             \<and> dhcp_kept u (l3Mode_v2.Dhcp l3)
             \<and> fragment_kept u (l3Mode_v2.Arp l3)
             \<and> fragment_kept u (l3Mode_v2.Subinterface l3)
             \<and> fragment_kept u (Address (l3Mode_v2.Ipv6 l3)))
      \<and> (case entry_v2.ModeL2 a of
           None \<Rightarrow> True
         | Some l2 \<Rightarrow>
             yes_no u (otherMode.LldpEnabled l2) \<and> fragment_kept u (otherMode.Subinterface l2))
      \<and> (case entry_v2.ModeVwire a of
           None \<Rightarrow> True
         | Some vw \<Rightarrow> yes_no u (otherMode.LldpEnabled vw) \<and> otherMode.Subinterface vw = None))"

text \<open>
  The same for v1, where in addition the selected mode carries no fragment at all.
\<close>

definition reproducible_v1 :: "('ent, 'cfg) util \<Rightarrow> 'ent entry_v1 \<Rightarrow> bool" where
  "reproducible_v1 u a =
     (exactly_one_mode (modes_v1 a)
      \<and> (case entry_v1.ModeL3 a of
           None \<Rightarrow> True
         | Some l3 \<Rightarrow>
             yes_no u (Enabled (l3Mode_v1.Ipv6 l3)) \<and> yes_no u (l3Mode_v1.AdjustTcpMss l3)
             \<and> StrToEnt u (EntToStr u (l3Mode_v1.StaticIps l3)) = l3Mode_v1.StaticIps l3
             \<and> dhcp_kept u (l3Mode_v1.Dhcp l3)
             \<and> l3Mode_v1.Arp l3 = None
             \<and> l3Mode_v1.Subinterface l3 = None
             \<and> Address (l3Mode_v1.Ipv6 l3) = None)
      \<and> (case entry_v1.ModeL2 a of
           None \<Rightarrow> True
         | Some l2 \<Rightarrow> yes_no u (otherMode.LldpEnabled l2) \<and> otherMode.Subinterface l2 = None)
      \<and> (case entry_v1.ModeVwire a of
           None \<Rightarrow> True
         | Some vw \<Rightarrow> yes_no u (otherMode.LldpEnabled vw) \<and> otherMode.Subinterface vw = None))"

text \<open>Specify after Normalize, for each variant.\<close>

definition roundtrip_v1 :: "('ent, 'cfg) util \<Rightarrow> 'ent container_v1 \<Rightarrow> panic + 'ent entry_v1" where
  "roundtrip_v1 u c = and_then (Normalize_v1 u c) (\<lambda>e. Inr (specify_v1 u e))"

definition roundtrip_v2 :: "('ent, 'cfg) util \<Rightarrow> 'ent container_v2 \<Rightarrow> panic + 'ent entry_v2" where
  "roundtrip_v2 u c = and_then (Normalize_v2 u c) (\<lambda>e. Inr (specify_v2 u e))"

section \<open>Concrete inputs\<close>

text \<open>
  Modelled from the spec: the package \<^verbatim>\<open>util\<close> is not part of eth.go. This
  sample of it serves to evaluate the embedding at concrete inputs (the theorems
  about the embedding hold for every package). Booleans are the texts "yes" and
  "no" on the wire, and any other text reads as false; a list of addresses is
  kept as the list of its strings, the \<^verbatim>\<open>nil\<close> list as no list; the text of a
  fragment is stored as it is (the sample texts have no wrapper tag to strip); an
  entry selector names each entry; a bulk element is passed on whole.
\<close>

fun join_or :: "string list \<Rightarrow> string" where
  "join_or [] = []"
| "join_or [v] = v"
| "join_or (v # vs) = v @ '' or '' @ join_or vs"

definition AsEntryXpath_sample :: "string list \<Rightarrow> string" where
  "AsEntryXpath_sample vals =
     (if vals = [] then ''entry''
      else ''entry['' @ join_or (map (\<lambda>v. ''@name='' @ [CHR 0x27] @ v @ [CHR 0x27]) vals) @ '']'')"

definition util_sample :: "(string list, string list BulkElement) util" where
  "util_sample =
     \<lparr>AsBool = (\<lambda>s. s = ''yes''),
      YesNo = (\<lambda>b. if b then ''yes'' else ''no''),
      EntToStr = (\<lambda>x. x),
      StrToEnt = (\<lambda>x. x),
      CleanRawXml = (\<lambda>s. s),
      AsEntryXpath = AsEntryXpath_sample,
      Config = (\<lambda>d. d)\<rparr>"

text \<open>A v1 answer for a layer3 interface that has an ARP block.\<close>

definition arp_v1 :: "string list container_v1" where
  "arp_v1 =
     \<lparr>container_v1.Answer = entry_v1_zero\<lparr>entry_v1.Name := ''ethernet1/1'',
        entry_v1.ModeL3 :=
          Some (l3Mode_v1_zero\<lparr>l3Mode_v1.Arp := Some \<lparr>Text = ''<entry name=x/>''\<rparr>\<rparr>)\<rparr>\<rparr>"

text \<open>A layer3 record with one static address and every DHCP field at zero.\<close>

definition layer3_off :: Entry where
  "layer3_off = Entry_zero\<lparr>Entry.Name := ''ethernet1/1'', Entry.Mode := ''layer3'',
     Entry.StaticIps := Some [''10.0.0.1/24'']\<rparr>"

text \<open>A v1 answer for a layer2 interface without subinterfaces.\<close>

definition l2_v1 :: "string list container_v1" where
  "l2_v1 =
     \<lparr>container_v1.Answer = entry_v1_zero\<lparr>entry_v1.Name := ''ethernet1/2'',
        entry_v1.ModeL2 :=
          Some (otherMode_zero\<lparr>otherMode.LldpEnabled := ''yes'',
                  otherMode.LldpProfile := ''lldp-a''\<rparr>)\<rparr>\<rparr>"

text \<open>A v2 answer for a layer3 interface with an ARP block and MSS adjustment.\<close>

definition arp_v2 :: "string list container_v2" where
  "arp_v2 =
     \<lparr>container_v2.Answer = entry_v2_zero\<lparr>entry_v2.Name := ''ethernet1/1'',
        entry_v2.ModeL3 :=
          Some (l3Mode_v2_zero\<lparr>l3Mode_v2.Ipv6 := \<lparr>Enabled = ''no'', Address = None\<rparr>,
                  l3Mode_v2.Mtu := 1500,
                  l3Mode_v2.AdjustTcpMss := ''yes'',
                  l3Mode_v2.Ipv4MssAdjust := 40,
                  l3Mode_v2.Ipv6MssAdjust := 60,
                  l3Mode_v2.StaticIps := Some [''10.0.0.1/24''],
                  l3Mode_v2.Arp := Some \<lparr>Text = ''<entry name=x/>''\<rparr>\<rparr>)\<rparr>\<rparr>"

text \<open>Answers in which no mode is present, and a record whose mode is unknown.\<close>

definition bare_v1 :: "string list container_v1" where
  "bare_v1 =
     \<lparr>container_v1.Answer = entry_v1_zero\<lparr>entry_v1.Name := ''ethernet1/3'',
        entry_v1.LinkSpeed := ''auto'', entry_v1.Comment := ''spare''\<rparr>\<rparr>"

definition bare_v2 :: "string list container_v2" where
  "bare_v2 =
     \<lparr>container_v2.Answer = entry_v2_zero\<lparr>entry_v2.Name := ''ethernet1/3'',
        entry_v2.LinkSpeed := ''auto'', entry_v2.Comment := ''spare''\<rparr>\<rparr>"

definition loopback_entry :: Entry where
  "loopback_entry = Entry_zero\<lparr>Entry.Name := ''ethernet1/4'', Entry.Mode := ''loopback'',
     Entry.Mtu := 9000, Entry.LinkState := ''up''\<rparr>"


text \<open>
  A sample connection: a device at version 7.1.0 on which reads fail (leaving a
  partly decoded object behind), writes succeed and the unimport fails.
\<close>

definition con_sample :: "(string list, string list BulkElement, string) XapiClient" where
  "con_sample =
     \<lparr>Versioning = (\<lambda>h. \<lparr>Major = 7, Minor = 1, Patch = 0, Suffix = []\<rparr>),
      Read = (\<lambda>h fn path obj. (Container_v1 arp_v1, Some ''Object not present'')),
      EntryListUsing = (\<lambda>h fn path. ([], None)),
      Set = (\<lambda>h path cfg. None),
      Edit = (\<lambda>h path elm. None),
      Delete = (\<lambda>h path. None),
      ImportInterfaces = (\<lambda>h vsys names. None),
      UnimportInterfaces = (\<lambda>h vsys names. Some ''vsys not found'')\<rparr>"

text \<open>The same connection to a device at another version.\<close>

definition con_version ::
  "Number \<Rightarrow> (string list, string list BulkElement, string) XapiClient" where
  "con_version v = con_sample\<lparr>Versioning := (\<lambda>h. v)\<rparr>"

text \<open>The same connection with an unimport that succeeds.\<close>

definition con_unimport_ok :: "(string list, string list BulkElement, string) XapiClient" where
  "con_unimport_ok = con_sample\<lparr>UnimportInterfaces := (\<lambda>h vsys names. None)\<rparr>"

text \<open>A layer3 record with MSS adjustments, and a layer2 record.\<close>

definition layer3_mss :: Entry where
  "layer3_mss = Entry_zero\<lparr>Entry.Name := ''ethernet1/1'', Entry.Mode := ''layer3'',
     Entry.AdjustTcpMss := True, Entry.Ipv4MssAdjust := 40, Entry.Ipv6MssAdjust := 60\<rparr>"

definition layer2_entry :: Entry where
  "layer2_entry = Entry_zero\<lparr>Entry.Name := ''ethernet1/2'', Entry.Mode := ''layer2'',
     Entry.LldpEnabled := True\<rparr>"



text \<open>
  A v2 answer for a layer3 interface whose DHCP block has every field off or zero.
\<close>

definition l3_dhcp_off :: "string list l3Mode_v2" where
  "l3_dhcp_off =
     l3Mode_v2_zero\<lparr>l3Mode_v2.Ipv6 := \<lparr>Enabled = ''no'', Address = None\<rparr>,
        l3Mode_v2.AdjustTcpMss := ''no'',
        l3Mode_v2.Dhcp := Some \<lparr>Enable = ''no'', CreateDefaultRoute = ''no'', Metric = 0\<rparr>\<rparr>"

definition dhcp_off_v2 :: "string list container_v2" where
  "dhcp_off_v2 =
     \<lparr>container_v2.Answer = entry_v2_zero\<lparr>entry_v2.Name := ''ethernet1/1'',
        entry_v2.ModeL3 := Some l3_dhcp_off\<rparr>\<rparr>"


section \<open>Properties\<close>

lemmas zero_defs = xml_Name_zero_def ipv6_zero_def otherMode_zero_def l3Mode_v1_zero_def
  l3Mode_v2_zero_def entry_v1_zero_def entry_v2_zero_def container_v1_zero_def
  container_v2_zero_def Entry_zero_def

subsection \<open>Fragments\<close>

lemma keep_fragment_absent: "keep_fragment u None k ans = Inr ans"
  by (simp add: keep_fragment_def)

lemma keep_fragment_Some:
  "Entry.raw ans = Some m \<Longrightarrow>
   keep_fragment u x k ans =
     Inr (ans\<lparr>Entry.raw :=
            Some (case x of None \<Rightarrow> m | Some r \<Rightarrow> m(k \<mapsto> CleanRawXml u (Text r)))\<rparr>)"
  by (cases x) (simp_all add: keep_fragment_def raw_assign_def)

lemma keep_fragment_None:
  "Entry.raw ans = None \<Longrightarrow>
   keep_fragment u x k ans = (case x of None \<Rightarrow> Inr ans | Some r \<Rightarrow> Inl NilMapAssignment)"
  by (cases x) (simp_all add: keep_fragment_def raw_assign_def)

lemma and_then_Inr: "and_then (Inr x) f = f x"
  by (simp add: and_then_def)

lemma and_then_Inl: "and_then (Inl p) f = Inl p"
  by (simp add: and_then_def)

text \<open>
  The v2 normalizer stores every fragment of the selected mode, cleaned, under
  its key.
\<close>

lemma Normalize_v2_keeps_layer3_fragments:
  assumes "entry_v2.ModeL3 (container_v2.Answer c) = Some l3"
  shows "\<exists>e. Normalize_v2 u c = Inr e
           \<and> raw_lookup e ''arp'' =
               map_option (\<lambda>r. CleanRawXml u (Text r)) (l3Mode_v2.Arp l3)
           \<and> raw_lookup e ''l3subinterface'' =
               map_option (\<lambda>r. CleanRawXml u (Text r)) (l3Mode_v2.Subinterface l3)
           \<and> raw_lookup e ''ipv6'' =
               map_option (\<lambda>r. CleanRawXml u (Text r)) (Address (l3Mode_v2.Ipv6 l3))"
  using assms
  by (cases "l3Mode_v2.Dhcp l3"; cases "l3Mode_v2.Arp l3"; cases "l3Mode_v2.Subinterface l3";
      cases "Address (l3Mode_v2.Ipv6 l3)")
    (simp_all add: Normalize_v2_def Let_def keep_fragment_Some and_then_Inr raw_lookup_def)

lemma Normalize_v2_keeps_layer2_fragment:
  assumes "entry_v2.ModeL3 (container_v2.Answer c) = None"
    and "entry_v2.ModeL2 (container_v2.Answer c) = Some l2"
  shows "\<exists>e. Normalize_v2 u c = Inr e
           \<and> raw_lookup e ''l2subinterface'' =
               map_option (\<lambda>r. CleanRawXml u (Text r)) (otherMode.Subinterface l2)"
  using assms
  by (cases "otherMode.Subinterface l2")
    (simp_all add: Normalize_v2_def Let_def keep_fragment_Some and_then_Inr raw_lookup_def)

text \<open>
  The v1 normalizer panics whenever the selected mode carries a fragment.
\<close>

lemma Normalize_v1_fragment_panics:
  assumes "\<not> list_all (\<lambda>x. x = None) (fragments_v1 (container_v1.Answer c))"
  shows "Normalize_v1 u c = Inl NilMapAssignment"
proof (cases "entry_v1.ModeL3 (container_v1.Answer c)")
  case (Some l3)
  with assms show ?thesis
    by (cases "l3Mode_v1.Dhcp l3"; cases "l3Mode_v1.Arp l3"; cases "l3Mode_v1.Subinterface l3";
        cases "Address (l3Mode_v1.Ipv6 l3)")
      (simp_all add: Normalize_v1_def Let_def fragments_v1_def keep_fragment_def raw_assign_def
        and_then_def Entry_zero_def)
next
  case l3: None
  show ?thesis
  proof (cases "entry_v1.ModeL2 (container_v1.Answer c)")
    case (Some l2)
    with assms l3 show ?thesis
      by (cases "otherMode.Subinterface l2")
        (simp_all add: Normalize_v1_def Let_def fragments_v1_def keep_fragment_def
          raw_assign_def and_then_def Entry_zero_def)
  next
    case None
    with assms l3 show ?thesis
      by (simp add: fragments_v1_def)
  qed
qed

text \<open>
  C2. Normalize is to complete for every wire object and to store each fragment
  that is present under its key. \<^verbatim>\<open>container_v2.Normalize\<close> makes the map before
  it writes; \<^verbatim>\<open>container_v1.Normalize\<close> never does, so for a v1 answer with an ARP
  block the assignment \<^verbatim>\<open>ans.raw["arp"] = ...\<close> panics and no record is returned.
\<close>

theorem Normalize_v1_arp_panics: "Normalize_v1 util_sample arp_v1 = Inl NilMapAssignment"
  by (simp add: Normalize_v1_def arp_v1_def zero_defs keep_fragment_def raw_assign_def
      and_then_def)

subsection \<open>The DHCP block\<close>

text \<open>
  C4. For a record with Mode "layer3", both specifiers build the layer3
  sub-object, and it has a DHCP sub-object if and only if EnableDhcp is true, or
  CreateDhcpDefaultRoute is true, or DhcpDefaultRouteMetric is not zero.
\<close>

theorem specify_dhcp_iff:
  "Entry.Mode e = ''layer3'' \<Longrightarrow>
     (\<exists>i. entry_v1.ModeL3 (specify_v1 u e) = Some i \<and>
          (l3Mode_v1.Dhcp i \<noteq> None) =
          (Entry.EnableDhcp e \<or> Entry.CreateDhcpDefaultRoute e
             \<or> Entry.DhcpDefaultRouteMetric e \<noteq> 0))
   \<and> (\<exists>i. entry_v2.ModeL3 (specify_v2 u e) = Some i \<and>
          (l3Mode_v2.Dhcp i \<noteq> None) =
          (Entry.EnableDhcp e \<or> Entry.CreateDhcpDefaultRoute e
             \<or> Entry.DhcpDefaultRouteMetric e \<noteq> 0))"
  by (simp add: specify_v1_def specify_v2_def Let_def zero_defs split: option.splits)

theorem specify_dhcp_iff_witness:
  "Entry.Mode layer3_off = ''layer3'' \<and>
   (\<exists>i. entry_v1.ModeL3 (specify_v1 util_sample layer3_off) = Some i \<and> l3Mode_v1.Dhcp i = None) \<and>
   (\<exists>i. entry_v2.ModeL3 (specify_v2 util_sample layer3_off) = Some i \<and> l3Mode_v2.Dhcp i = None)"
proof -
  have m: "Entry.Mode layer3_off = ''layer3''"
    by (simp add: layer3_off_def)
  have z: "\<not> (Entry.EnableDhcp layer3_off \<or> Entry.CreateDhcpDefaultRoute layer3_off
              \<or> Entry.DhcpDefaultRouteMetric layer3_off \<noteq> 0)"
    by (simp add: layer3_off_def Entry_zero_def)
  from specify_dhcp_iff [OF m, of util_sample] z m show ?thesis
    by auto
qed

subsection \<open>Mode selection\<close>

lemma Normalize_v2_exclusive:
  "\<exists>e. Normalize_v2 u c = Inr e
       \<and> Entry.Mode e = first_present (modes_v2 (container_v2.Answer c))
       \<and> other_modes_zero e"
proof (cases "entry_v2.ModeL3 (container_v2.Answer c)")
  case (Some l3)
  then show ?thesis
    by (simp add: Normalize_v2_def Let_def keep_fragment_Some and_then_Inr other_modes_zero_def
        modes_v2_def raw_lookup_def Entry_zero_def split: option.splits)
next
  case l3: None
  show ?thesis
  proof (cases "entry_v2.ModeL2 (container_v2.Answer c)")
    case (Some l2)
    with l3 show ?thesis
      by (simp add: Normalize_v2_def Let_def keep_fragment_Some and_then_Inr other_modes_zero_def
          layer3_fields_zero_def modes_v2_def raw_lookup_def Entry_zero_def split: option.splits)
  next
    case l2: None
    show ?thesis
    proof (cases "entry_v2.ModeVwire (container_v2.Answer c)")
      case (Some vw)
      with l3 l2 show ?thesis
        by (simp add: Normalize_v2_def Let_def other_modes_zero_def
            layer3_fields_zero_def modes_v2_def raw_lookup_def Entry_zero_def)
    next
      case None
      with l3 l2 show ?thesis
        by (simp add: Normalize_v2_def Let_def other_modes_zero_def
            layer3_fields_zero_def modes_v2_def raw_lookup_def Entry_zero_def split: option.splits)
    qed
  qed
qed

lemma Normalize_v1_exclusive:
  assumes "Normalize_v1 u c = Inr e"
  shows "Entry.Mode e = first_present (modes_v1 (container_v1.Answer c)) \<and> other_modes_zero e"
proof (cases "entry_v1.ModeL3 (container_v1.Answer c)")
  case (Some l3)
  with assms have "l3Mode_v1.Arp l3 = None" "l3Mode_v1.Subinterface l3 = None"
      "Address (l3Mode_v1.Ipv6 l3) = None"
    by (auto simp add: Normalize_v1_def Let_def keep_fragment_None and_then_def Entry_zero_def
        split: option.splits)
  with assms Some show ?thesis
    by (auto simp add: Normalize_v1_def Let_def keep_fragment_None and_then_Inr other_modes_zero_def
        modes_v1_def raw_lookup_def Entry_zero_def split: option.splits)
next
  case l3: None
  show ?thesis
  proof (cases "entry_v1.ModeL2 (container_v1.Answer c)")
    case (Some l2)
    with assms l3 have "otherMode.Subinterface l2 = None"
      by (auto simp add: Normalize_v1_def Let_def keep_fragment_None and_then_def Entry_zero_def
        split: option.splits)
    with assms l3 Some show ?thesis
      by (auto simp add: Normalize_v1_def Let_def keep_fragment_None and_then_Inr other_modes_zero_def
          layer3_fields_zero_def modes_v1_def raw_lookup_def Entry_zero_def)
  next
    case l2: None
    show ?thesis
    proof (cases "entry_v1.ModeVwire (container_v1.Answer c)")
      case (Some vw)
      with assms l3 l2 show ?thesis
        by (auto simp add: Normalize_v1_def Let_def other_modes_zero_def
            layer3_fields_zero_def modes_v1_def raw_lookup_def Entry_zero_def)
    next
      case None
      with assms l3 l2 show ?thesis
        by (auto simp add: Normalize_v1_def Let_def other_modes_zero_def
            layer3_fields_zero_def modes_v1_def raw_lookup_def Entry_zero_def split: option.splits)
    qed
  qed
qed

lemma Normalize_v1_returns:
  assumes "list_all (\<lambda>x. x = None) (fragments_v1 (container_v1.Answer c))"
  shows "\<exists>e. Normalize_v1 u c = Inr e"
proof (cases "entry_v1.ModeL3 (container_v1.Answer c)")
  case (Some l3)
  with assms have "l3Mode_v1.Arp l3 = None" "l3Mode_v1.Subinterface l3 = None"
      "Address (l3Mode_v1.Ipv6 l3) = None"
    by (simp_all add: fragments_v1_def)
  with Some show ?thesis
    by (simp add: Normalize_v1_def Let_def keep_fragment_absent and_then_Inr)
next
  case l3: None
  show ?thesis
  proof (cases "entry_v1.ModeL2 (container_v1.Answer c)")
    case (Some l2)
    with assms l3 have "otherMode.Subinterface l2 = None"
      by (simp add: fragments_v1_def)
    with l3 Some show ?thesis
      by (simp add: Normalize_v1_def Let_def keep_fragment_absent and_then_Inr)
  next
    case None
    with l3 show ?thesis
      by (simp add: Normalize_v1_def Let_def split: option.splits)
  qed
qed

text \<open>
  C8. Normalize selects the first mode that is present, in the order layer3,
  layer2, virtual-wire, tap, ha, decrypt-mirror, aggregate-group, and in the record
  it returns every field of every other mode is at its zero value. The v2
  normalizer returns such a record for every wire object; the v1 normalizer returns
  one whenever the selected mode carries no fragment, and every record it returns
  is such a record.
\<close>

theorem Normalize_mode_exclusive:
  "(\<forall>e. Normalize_v1 u c1 = Inr e \<longrightarrow>
         Entry.Mode e = first_present (modes_v1 (container_v1.Answer c1)) \<and> other_modes_zero e)
   \<and> (list_all (\<lambda>x. x = None) (fragments_v1 (container_v1.Answer c1)) \<longrightarrow>
         (\<exists>e. Normalize_v1 u c1 = Inr e))
   \<and> (\<exists>e. Normalize_v2 u c2 = Inr e
         \<and> Entry.Mode e = first_present (modes_v2 (container_v2.Answer c2))
         \<and> other_modes_zero e)"
  using Normalize_v1_exclusive [of u c1] Normalize_v1_returns [of c1 u]
    Normalize_v2_exclusive [of u c2]
  by blast

theorem Normalize_mode_exclusive_witness:
  "(\<exists>e. Normalize_v1 util_sample l2_v1 = Inr e \<and> Entry.Mode e = ''layer2''
        \<and> other_modes_zero e)
   \<and> (\<exists>e. Normalize_v2 util_sample arp_v2 = Inr e \<and> Entry.Mode e = ''layer3''
        \<and> other_modes_zero e)"
proof -
  have f: "list_all (\<lambda>x. x = None) (fragments_v1 (container_v1.Answer l2_v1))"
    by (simp add: fragments_v1_def l2_v1_def zero_defs)
  have m1: "first_present (modes_v1 (container_v1.Answer l2_v1)) = ''layer2''"
    by (simp add: modes_v1_def l2_v1_def zero_defs)
  have m2: "first_present (modes_v2 (container_v2.Answer arp_v2)) = ''layer3''"
    by (simp add: modes_v2_def arp_v2_def zero_defs)
  from Normalize_mode_exclusive [of util_sample l2_v1 arp_v2] f m1 m2 show ?thesis
    by auto
qed

subsection \<open>Absent and unknown modes\<close>

text \<open>
  C9. When no mode sub-object is present, Normalize returns (without failing) the
  record that carries the identity and link fields of the wire object, an empty
  Mode and nothing else (v2 has made its empty fragments map). When the Mode of a
  record is none of the seven tags, both specifiers return the wire entry that
  carries the identity and link fields and no mode sub-object.
\<close>

theorem absent_or_unknown_mode_tolerated:
  "(entry_v1.ModeL3 (container_v1.Answer c1) = None
      \<and> entry_v1.ModeL2 (container_v1.Answer c1) = None
      \<and> entry_v1.ModeVwire (container_v1.Answer c1) = None
      \<and> entry_v1.TapMode (container_v1.Answer c1) = None
      \<and> entry_v1.HaMode (container_v1.Answer c1) = None
      \<and> entry_v1.DecryptMirrorMode (container_v1.Answer c1) = None
      \<and> entry_v1.AggregateGroupMode (container_v1.Answer c1) = None
    \<longrightarrow> Normalize_v1 u c1 =
          Inr (Entry_zero\<lparr>Entry.Name := entry_v1.Name (container_v1.Answer c1),
                 Entry.LinkSpeed := entry_v1.LinkSpeed (container_v1.Answer c1),
                 Entry.LinkDuplex := entry_v1.LinkDuplex (container_v1.Answer c1),
                 Entry.LinkState := entry_v1.LinkState (container_v1.Answer c1),
                 Entry.Comment := entry_v1.Comment (container_v1.Answer c1)\<rparr>))
  \<and> (entry_v2.ModeL3 (container_v2.Answer c2) = None
      \<and> entry_v2.ModeL2 (container_v2.Answer c2) = None
      \<and> entry_v2.ModeVwire (container_v2.Answer c2) = None
      \<and> entry_v2.TapMode (container_v2.Answer c2) = None
      \<and> entry_v2.HaMode (container_v2.Answer c2) = None
      \<and> entry_v2.DecryptMirrorMode (container_v2.Answer c2) = None
      \<and> entry_v2.AggregateGroupMode (container_v2.Answer c2) = None
    \<longrightarrow> Normalize_v2 u c2 =
          Inr (Entry_zero\<lparr>Entry.Name := entry_v2.Name (container_v2.Answer c2),
                 Entry.LinkSpeed := entry_v2.LinkSpeed (container_v2.Answer c2),
                 Entry.LinkDuplex := entry_v2.LinkDuplex (container_v2.Answer c2),
                 Entry.LinkState := entry_v2.LinkState (container_v2.Answer c2),
                 Entry.Comment := entry_v2.Comment (container_v2.Answer c2),
                 Entry.raw := Some Map.empty\<rparr>))
  \<and> (Entry.Mode e \<notin> {''layer3'', ''layer2'', ''virtual-wire'', ''tap'', ''ha'',
                       ''decrypt-mirror'', ''aggregate-group''}
    \<longrightarrow> specify_v1 u e =
          entry_v1_zero\<lparr>entry_v1.Name := Entry.Name e, entry_v1.LinkSpeed := Entry.LinkSpeed e,
             entry_v1.LinkDuplex := Entry.LinkDuplex e, entry_v1.LinkState := Entry.LinkState e,
             entry_v1.Comment := Entry.Comment e\<rparr>
        \<and> specify_v2 u e =
          entry_v2_zero\<lparr>entry_v2.Name := Entry.Name e, entry_v2.LinkSpeed := Entry.LinkSpeed e,
             entry_v2.LinkDuplex := Entry.LinkDuplex e, entry_v2.LinkState := Entry.LinkState e,
             entry_v2.Comment := Entry.Comment e\<rparr>)"
  by (simp add: Normalize_v1_def Normalize_v2_def specify_v1_def specify_v2_def Let_def)

theorem absent_or_unknown_mode_tolerated_witness:
  "Normalize_v1 util_sample bare_v1 =
     Inr (Entry_zero\<lparr>Entry.Name := ''ethernet1/3'', Entry.LinkSpeed := ''auto'',
            Entry.Comment := ''spare''\<rparr>)
   \<and> Normalize_v2 util_sample bare_v2 =
     Inr (Entry_zero\<lparr>Entry.Name := ''ethernet1/3'', Entry.LinkSpeed := ''auto'',
            Entry.Comment := ''spare'', Entry.raw := Some Map.empty\<rparr>)
   \<and> specify_v1 util_sample loopback_entry =
       (entry_v1_zero\<lparr>entry_v1.Name := ''ethernet1/4'', entry_v1.LinkState := ''up''\<rparr>
          :: string list entry_v1)
   \<and> specify_v2 util_sample loopback_entry =
       (entry_v2_zero\<lparr>entry_v2.Name := ''ethernet1/4'', entry_v2.LinkState := ''up''\<rparr>
          :: string list entry_v2)"
  using absent_or_unknown_mode_tolerated [of bare_v1 util_sample bare_v2 loopback_entry]
  by (simp add: bare_v1_def bare_v2_def loopback_entry_def zero_defs)

subsection \<open>Version dispatch\<close>

text \<open>
  C3. \<^verbatim>\<open>versioning\<close> returns the v2 pair (a \<^verbatim>\<open>container_v2\<close> and
  \<^verbatim>\<open>specify_v2\<close>) exactly when the version the connection reports is at least
  7.1.0, and the v1 pair otherwise; so 7.0.9 gives v1, and 7.1.0 and 8.0.0 give v2.
  What \<^verbatim>\<open>specify_v1\<close> returns does not depend on Ipv4MssAdjust and Ipv6MssAdjust,
  and the layer3 sub-object that \<^verbatim>\<open>specify_v2\<close> builds carries both.
\<close>

theorem versioning_dispatch:
  "fst (Eth_versioning u con h) =
     (if at_least_7_1_0 (Versioning con h)
      then (Container_v2 container_v2_zero, \<lambda>e. Wire_v2 (specify_v2 u e))
      else (Container_v1 container_v1_zero, \<lambda>e. Wire_v1 (specify_v1 u e)))
   \<and> (Major (Versioning con h) = 7 \<and> Minor (Versioning con h) = 0
         \<and> Patch (Versioning con h) = 9
        \<longrightarrow> fst (Eth_versioning u con h) =
              (Container_v1 container_v1_zero, \<lambda>e. Wire_v1 (specify_v1 u e)))
   \<and> (Major (Versioning con h) = 7 \<and> Minor (Versioning con h) = 1
         \<and> Patch (Versioning con h) = 0
        \<longrightarrow> fst (Eth_versioning u con h) =
              (Container_v2 container_v2_zero, \<lambda>e. Wire_v2 (specify_v2 u e)))
   \<and> (Major (Versioning con h) = 8 \<and> Minor (Versioning con h) = 0
         \<and> Patch (Versioning con h) = 0
        \<longrightarrow> fst (Eth_versioning u con h) =
              (Container_v2 container_v2_zero, \<lambda>e. Wire_v2 (specify_v2 u e)))
   \<and> specify_v1 u (e\<lparr>Entry.Ipv4MssAdjust := a, Entry.Ipv6MssAdjust := b\<rparr>) = specify_v1 u e
   \<and> (Entry.Mode e = ''layer3'' \<longrightarrow>
        (\<exists>i. entry_v2.ModeL3 (specify_v2 u e) = Some i
            \<and> l3Mode_v2.Ipv4MssAdjust i = Entry.Ipv4MssAdjust e
            \<and> l3Mode_v2.Ipv6MssAdjust i = Entry.Ipv6MssAdjust e))"
proof -
  have a: "specify_v1 u (e\<lparr>Entry.Ipv4MssAdjust := a, Entry.Ipv6MssAdjust := b\<rparr>) = specify_v1 u e"
    by (simp add: specify_v1_def raw_lookup_def Let_def cong: option.case_cong if_cong)
  have b: "Entry.Mode e = ''layer3'' \<longrightarrow>
        (\<exists>i. entry_v2.ModeL3 (specify_v2 u e) = Some i
            \<and> l3Mode_v2.Ipv4MssAdjust i = Entry.Ipv4MssAdjust e
            \<and> l3Mode_v2.Ipv6MssAdjust i = Entry.Ipv6MssAdjust e)"
    by (simp add: specify_v2_def Let_def zero_defs split: option.splits)
  have c: "fst (Eth_versioning u con h) =
     (if at_least_7_1_0 (Versioning con h)
      then (Container_v2 container_v2_zero, \<lambda>e. Wire_v2 (specify_v2 u e))
      else (Container_v1 container_v1_zero, \<lambda>e. Wire_v1 (specify_v1 u e)))"
    by (auto simp add: Eth_versioning_def Let_def Gte_def at_least_7_1_0_def)
  from a b show ?thesis
    unfolding c by (simp add: at_least_7_1_0_def)
qed

theorem versioning_dispatch_witness:
  "fst (Eth_versioning util_sample
          (con_version \<lparr>Major = 7, Minor = 0, Patch = 9, Suffix = []\<rparr>) []) =
     (Container_v1 container_v1_zero, \<lambda>e. Wire_v1 (specify_v1 util_sample e))
   \<and> fst (Eth_versioning util_sample
          (con_version \<lparr>Major = 7, Minor = 1, Patch = 0, Suffix = []\<rparr>) []) =
     (Container_v2 container_v2_zero, \<lambda>e. Wire_v2 (specify_v2 util_sample e))
   \<and> fst (Eth_versioning util_sample
          (con_version \<lparr>Major = 8, Minor = 0, Patch = 0, Suffix = []\<rparr>) []) =
     (Container_v2 container_v2_zero, \<lambda>e. Wire_v2 (specify_v2 util_sample e))
   \<and> (\<exists>i. entry_v2.ModeL3 (specify_v2 util_sample layer3_mss) = Some i
         \<and> l3Mode_v2.Ipv4MssAdjust i = 40 \<and> l3Mode_v2.Ipv6MssAdjust i = 60)"
proof -
  have m: "Entry.Mode layer3_mss = ''layer3''" "Entry.Ipv4MssAdjust layer3_mss = 40"
      "Entry.Ipv6MssAdjust layer3_mss = 60"
    by (simp_all add: layer3_mss_def)
  from versioning_dispatch
         [where u = util_sample and h = "[]" and e = layer3_mss
            and con = "con_version \<lparr>Major = 7, Minor = 0, Patch = 9, Suffix = []\<rparr>"]
       versioning_dispatch
         [where u = util_sample and h = "[]"
            and con = "con_version \<lparr>Major = 7, Minor = 1, Patch = 0, Suffix = []\<rparr>"]
       versioning_dispatch
         [where u = util_sample and h = "[]"
            and con = "con_version \<lparr>Major = 8, Minor = 0, Patch = 0, Suffix = []\<rparr>"]
       m
  show ?thesis
    by (simp add: con_version_def at_least_7_1_0_def)
qed

subsection \<open>Reads that fail\<close>

lemma details_read_failure:
  "snd (details_read u con h fn name) = Some x \<Longrightarrow>
   fst (Eth_details u con h fn name) = Inr (Entry_zero, Some x)"
  by (auto simp add: details_read_def Eth_details_def Let_def split: prod.splits)

text \<open>
  C10. When the read that \<^verbatim>\<open>Get\<close> or \<^verbatim>\<open>Show\<close> makes on the connection returns an
  error, the method returns the zero \<^verbatim>\<open>Entry\<close> with that error, whatever the read
  left in the object it decoded into: Normalize is not applied.
\<close>

theorem read_failure_returns_zero_Entry:
  "(snd (details_read u con (h @ [Con_LogQuery ''(get) ethernet interface %q'' [Str name]])
           Verb_Get name) = Some x
      \<longrightarrow> fst (Eth_Get u con h name) = Inr (Entry_zero, Some x))
   \<and> (snd (details_read u con (h @ [Con_LogQuery ''(show) ethernet interface %q'' [Str name]])
           Verb_Show name) = Some x
      \<longrightarrow> fst (Eth_Show u con h name) = Inr (Entry_zero, Some x))"
  by (simp add: Eth_Get_def Eth_Show_def details_read_failure)

theorem read_failure_returns_zero_Entry_witness:
  "fst (Eth_Get util_sample con_sample [] ''ethernet1/1'') =
     Inr (Entry_zero, Some ''Object not present'')
   \<and> fst (Eth_Show util_sample con_sample [] ''ethernet1/1'') =
     Inr (Entry_zero, Some ''Object not present'')"
proof -
  have "snd (details_read util_sample con_sample h fn name) = Some ''Object not present''"
    for h fn name
    by (simp add: details_read_def con_sample_def Let_def split: prod.splits)
  with read_failure_returns_zero_Entry
         [where u = util_sample and con = con_sample and h = "[]" and name = "''ethernet1/1''"
            and x = "''Object not present''"]
  show ?thesis by simp
qed

subsection \<open>Delete\<close>

lemma Delete_names_eq:
  "Delete_names e =
     (case List.map_filter other_value e of
        [] \<Rightarrow> Inr (List.map_filter name_of e)
      | v # _ \<Rightarrow> Inl v)"
proof (induction e)
  case Nil
  show ?case by simp
next
  case (Cons x xs)
  then show ?case
    by (cases x) (simp_all split: list.splits)
qed

text \<open>
  C6. When \<^verbatim>\<open>Delete\<close> has extracted the names of at least one argument, it logs,
  then calls the unimport, and only then the delete. If the unimport returns an
  error, that error is the result and the log ends with the unimport: the delete
  call is never made. Otherwise the delete call follows at the path of all names
  and its error, if any, is the result.
\<close>

theorem Delete_unimport_first:
  "e \<noteq> [] \<and> Delete_names e = Inr names \<longrightarrow>
     (let h1 = h @ [Con_LogAction ''(delete) ethernet interface(s): %v'' [Strs names]];
          h2 = h1 @ [Con_UnimportInterfaces vsys names]
      in case UnimportInterfaces con h1 vsys names of
           Some x \<Rightarrow> Eth_Delete u con h vsys e = (Some (Con_error x), h2)
         | None \<Rightarrow>
             Eth_Delete u con h vsys e =
               (map_option Con_error (Delete con h2 (Eth_xpath u names)),
                h2 @ [Con_Delete (Eth_xpath u names)]))"
  by (simp add: Eth_Delete_def Let_def split: option.splits)

theorem Delete_unimport_first_witness:
  "Eth_Delete util_sample con_sample [] ''vsys1''
     [Ident_string ''ethernet1/1'', Ident_Entry layer2_entry :: unit ident] =
     (Some (Con_error ''vsys not found''),
      [Con_LogAction ''(delete) ethernet interface(s): %v''
         [Strs [''ethernet1/1'', ''ethernet1/2'']],
       Con_UnimportInterfaces ''vsys1'' [''ethernet1/1'', ''ethernet1/2'']])
   \<and> snd (Eth_Delete util_sample con_unimport_ok [] ''vsys1''
     [Ident_string ''ethernet1/1'', Ident_Entry layer2_entry :: unit ident]) =
      [Con_LogAction ''(delete) ethernet interface(s): %v''
         [Strs [''ethernet1/1'', ''ethernet1/2'']],
       Con_UnimportInterfaces ''vsys1'' [''ethernet1/1'', ''ethernet1/2''],
       Con_Delete (Eth_xpath util_sample [''ethernet1/1'', ''ethernet1/2''])]"
proof -
  have n: "Delete_names [Ident_string ''ethernet1/1'', Ident_Entry layer2_entry :: unit ident]
             = Inr [''ethernet1/1'', ''ethernet1/2'']"
    by (simp add: layer2_entry_def)
  from Delete_unimport_first
         [where e = "[Ident_string ''ethernet1/1'', Ident_Entry layer2_entry :: unit ident]"
            and names = "[''ethernet1/1'', ''ethernet1/2'']" and h = "[]" and vsys = "''vsys1''"
            and con = con_sample and u = util_sample]
       Delete_unimport_first
         [where e = "[Ident_string ''ethernet1/1'', Ident_Entry layer2_entry :: unit ident]"
            and names = "[''ethernet1/1'', ''ethernet1/2'']" and h = "[]" and vsys = "''vsys1''"
            and con = con_unimport_ok and u = util_sample]
       n
  show ?thesis
    by (simp add: con_sample_def con_unimport_ok_def)
qed

text \<open>
  C7. \<^verbatim>\<open>Delete\<close> with no argument returns success and makes no call. When some
  argument is neither a string nor an \<^verbatim>\<open>Entry\<close>, it returns the error built from
  the first such value and makes no call. Otherwise it takes the name of every
  argument, the string itself or the Name of the record, in the order given, and
  goes on to the unimport with these names.
\<close>

theorem Delete_type_handling:
  "Eth_Delete u con h vsys [] = (None, h)
   \<and> (List.map_filter other_value e = v # vs \<longrightarrow>
        Eth_Delete u con h vsys e =
          (Some (Errorf ''Unknown type sent to delete: %s'' v), h))
   \<and> (e \<noteq> [] \<and> List.map_filter other_value e = [] \<longrightarrow>
        (\<exists>rest. snd (Eth_Delete u con h vsys e) =
           h @ [Con_LogAction ''(delete) ethernet interface(s): %v''
                  [Strs (List.map_filter name_of e)],
                Con_UnimportInterfaces vsys (List.map_filter name_of e)] @ rest))"
proof -
  have a: "Eth_Delete u con h vsys [] = (None, h)"
    by (simp add: Eth_Delete_def)
  have b: "Eth_Delete u con h vsys e = (Some (Errorf ''Unknown type sent to delete: %s'' v), h)"
    if "List.map_filter other_value e = v # vs"
  proof -
    from that have "e \<noteq> []" by auto
    with that show ?thesis
      by (simp add: Eth_Delete_def Delete_names_eq)
  qed
  have c: "\<exists>rest. snd (Eth_Delete u con h vsys e) =
           h @ [Con_LogAction ''(delete) ethernet interface(s): %v''
                  [Strs (List.map_filter name_of e)],
                Con_UnimportInterfaces vsys (List.map_filter name_of e)] @ rest"
    if "e \<noteq> []" "List.map_filter other_value e = []"
    using that by (simp add: Eth_Delete_def Delete_names_eq Let_def split: option.splits)
  from a b c show ?thesis by blast
qed

theorem Delete_type_handling_witness:
  "Eth_Delete util_sample con_sample [] ''vsys1''
     [Ident_string ''ethernet1/1'', Ident_other (5::int), Ident_Entry layer2_entry,
      Ident_other 7] =
     (Some (Errorf ''Unknown type sent to delete: %s'' 5), [])
   \<and> (\<exists>rest. snd (Eth_Delete util_sample con_sample [] ''vsys1''
          [Ident_Entry layer2_entry, Ident_string ''ethernet1/1'' :: int ident]) =
        [Con_LogAction ''(delete) ethernet interface(s): %v''
           [Strs [''ethernet1/2'', ''ethernet1/1'']],
         Con_UnimportInterfaces ''vsys1'' [''ethernet1/2'', ''ethernet1/1'']] @ rest)"
proof -
  have o: "List.map_filter other_value
             [Ident_string ''ethernet1/1'', Ident_other (5::int), Ident_Entry layer2_entry,
              Ident_other 7] = [5, 7]"
    by simp
  have n: "List.map_filter other_value
             [Ident_Entry layer2_entry, Ident_string ''ethernet1/1'' :: int ident] = []"
      "List.map_filter name_of
             [Ident_Entry layer2_entry, Ident_string ''ethernet1/1'' :: int ident]
         = [''ethernet1/2'', ''ethernet1/1'']"
    by (simp_all add: layer2_entry_def)
  from Delete_type_handling
         [where u = util_sample and con = con_sample and h = "[]" and vsys = "''vsys1''"
            and e = "[Ident_string ''ethernet1/1'', Ident_other (5::int),
                      Ident_Entry layer2_entry, Ident_other 7]"
            and v = 5 and vs = "[7]"]
       Delete_type_handling
         [where u = util_sample and con = con_sample and h = "[]" and vsys = "''vsys1''"
            and e = "[Ident_Entry layer2_entry, Ident_string ''ethernet1/1'' :: int ident]"]
       o n
  show ?thesis
    by auto
qed

subsection \<open>Set\<close>

text \<open>
  The paths of the other methods: \<^verbatim>\<open>GetList\<close> and \<^verbatim>\<open>ShowList\<close> list at the path
  of the collection, \<^verbatim>\<open>details\<close> reads and \<^verbatim>\<open>Edit\<close> writes at the path of the
  single entry.
\<close>

lemma GetList_at_collection_path:
  "snd (Eth_GetList u con h) =
     h @ [Con_LogQuery ''(get) list of ethernet interfaces'' [],
          Con_EntryListUsing Verb_Get (collection_path u)]"
  by (simp add: Eth_GetList_def collection_path_def Let_def)

lemma ShowList_at_collection_path:
  "snd (Eth_ShowList u con h) =
     h @ [Con_LogQuery ''(show) list of ethernet interfaces'' [],
          Con_EntryListUsing Verb_Show (collection_path u)]"
  by (simp add: Eth_ShowList_def collection_path_def Let_def)

lemma details_at_single_entry_path:
  "snd (Eth_details u con h fn name) =
     h @ [Con_Versioning,
          Con_Read fn (single_entry_path u name) (fst (fst (Eth_versioning u con h)))]"
  by (simp add: Eth_details_def Eth_versioning_def single_entry_path_def Let_def
      split: prod.splits option.splits sum.splits)

lemma Edit_at_single_entry_path:
  "\<exists>elm rest. snd (Eth_Edit u con h vsys e) =
     h @ [Con_Versioning,
          Con_LogAction ''(edit) ethernet interface: %v'' [Str (Entry.Name e)],
          Con_Edit (single_entry_path u (Entry.Name e)) elm] @ rest"
  by (simp add: Eth_Edit_def Eth_versioning_def single_entry_path_def Let_def
      split: prod.splits option.splits)

text \<open>
  C5, as the code has it. \<^verbatim>\<open>Set\<close> with no record returns success and makes no
  call. With records it asks for the version, logs, and makes one write that
  carries \<^verbatim>\<open>Config()\<close> of the bulk element holding every specified record: for
  exactly one record at the path that ends in "ethernet" (the request path
  without its entry selector), for two or more at the path that ends in
  "interface" (the request path without its last two segments). The import
  follows when the write succeeds.
\<close>

theorem Set_write_path:
  "Eth_Set u con h vsys [] = (None, h)
   \<and> (e \<noteq> [] \<longrightarrow>
        (let names = map Entry.Name e;
             fn = snd (fst (Eth_versioning u con h));
             d = \<lparr>BulkElement.XMLName = \<lparr>Space = [], Local = ''ethernet''\<rparr>,
                  BulkElement.Data = map fn e\<rparr>;
             path = [''config'', ''devices'', AsEntryXpath u [''localhost.localdomain''],
                     ''network'', ''interface'']
                    @ (if length e = 1 then [''ethernet''] else []);
             h1 = h @ [Con_Versioning,
                       Con_LogAction ''(set) ethernet interfaces: %v'' [Strs names]]
         in snd (Eth_Set u con h vsys e) =
              h1 @ [Con_Set path (Config u d)]
                 @ (if Set con h1 path (Config u d) = None
                    then [Con_ImportInterfaces vsys names] else [])))"
  by (auto simp add: Eth_Set_def Eth_versioning_def Eth_xpath_def Let_def split: option.splits)

theorem Set_write_path_witness:
  "Set_paths (snd (Eth_Set util_sample con_sample [] [] [layer3_off])) =
     [[''config'', ''devices'', AsEntryXpath_sample [''localhost.localdomain''],
       ''network'', ''interface'', ''ethernet'']]
   \<and> Set_paths (snd (Eth_Set util_sample con_sample [] [] [layer3_off, layer2_entry])) =
     [[''config'', ''devices'', AsEntryXpath_sample [''localhost.localdomain''],
       ''network'', ''interface'']]"
proof -
  have s: "Set con_sample h p c = None" for h p c
    by (simp add: con_sample_def)
  have u: "AsEntryXpath util_sample = AsEntryXpath_sample"
    by (simp add: util_sample_def)
  from Set_write_path [where u = util_sample and con = con_sample and h = "[]" and vsys = "[]"
                         and e = "[layer3_off]"]
       Set_write_path [where u = util_sample and con = con_sample and h = "[]" and vsys = "[]"
                         and e = "[layer3_off, layer2_entry]"]
  show ?thesis
    by (simp add: Let_def s u)
qed

text \<open>
  C5, as the claim states it, fails: the one write of \<^verbatim>\<open>Set\<close> with a single record
  goes to the path of the collection, the one \<^verbatim>\<open>GetList\<close> lists, and not to the
  path of that single entry, the one \<^verbatim>\<open>Get\<close> and \<^verbatim>\<open>Edit\<close> use; the write for
  two records goes to the path above the collection.
\<close>

theorem Set_single_entry_path_counterexample:
  "Set_paths (snd (Eth_Set util_sample con_sample [] [] [layer3_off])) =
     [collection_path util_sample]
   \<and> collection_path util_sample \<noteq> single_entry_path util_sample (Entry.Name layer3_off)
   \<and> Set_paths (snd (Eth_Set util_sample con_sample [] [] [layer3_off, layer2_entry])) =
     [butlast (collection_path util_sample)]"
  by (simp add: Eth_Set_def Eth_versioning_def Eth_xpath_def Let_def con_sample_def
      collection_path_def single_entry_path_def Gte_def)

subsection \<open>Specify after Normalize\<close>

lemma exactly_one_of_seven:
  "exactly_one_mode [(m1, b1), (m2, b2), (m3, b3), (m4, b4), (m5, b5), (m6, b6), (m7, b7)] =
     ((b1 \<and> \<not> b2 \<and> \<not> b3 \<and> \<not> b4 \<and> \<not> b5 \<and> \<not> b6 \<and> \<not> b7)
      \<or> (\<not> b1 \<and> b2 \<and> \<not> b3 \<and> \<not> b4 \<and> \<not> b5 \<and> \<not> b6 \<and> \<not> b7)
      \<or> (\<not> b1 \<and> \<not> b2 \<and> b3 \<and> \<not> b4 \<and> \<not> b5 \<and> \<not> b6 \<and> \<not> b7)
      \<or> (\<not> b1 \<and> \<not> b2 \<and> \<not> b3 \<and> b4 \<and> \<not> b5 \<and> \<not> b6 \<and> \<not> b7)
      \<or> (\<not> b1 \<and> \<not> b2 \<and> \<not> b3 \<and> \<not> b4 \<and> b5 \<and> \<not> b6 \<and> \<not> b7)
      \<or> (\<not> b1 \<and> \<not> b2 \<and> \<not> b3 \<and> \<not> b4 \<and> \<not> b5 \<and> b6 \<and> \<not> b7)
      \<or> (\<not> b1 \<and> \<not> b2 \<and> \<not> b3 \<and> \<not> b4 \<and> \<not> b5 \<and> \<not> b6 \<and> b7))"
  unfolding exactly_one_mode_def
  by (cases b1; cases b2; cases b3; cases b4; cases b5; cases b6; cases b7; simp)

lemma marker_absent: "x \<noteq> Some () \<Longrightarrow> x = None"
  by (cases x) simp_all

lemma dhcp_rebuild:
  assumes "dhcp_kept u (Some d)"
  shows "(AsBool u (Enable d) \<or> AsBool u (CreateDefaultRoute d) \<or> Metric d \<noteq> 0)
     \<and> \<lparr>Enable = YesNo u (AsBool u (Enable d)),
         CreateDefaultRoute = YesNo u (AsBool u (CreateDefaultRoute d)),
         Metric = Metric d\<rparr> = d"
  using assms by (cases d) (simp add: dhcp_kept_def yes_no_def)

lemma fragment_rebuild:
  assumes "fragment_kept u (Some r)"
  shows "\<lparr>Text = CleanRawXml u (Text r)\<rparr> = r"
  using assms by (cases r) (simp add: fragment_kept_def)

lemma roundtrip_v2_layer3:
  assumes m: "entry_v2.ModeL3 a = Some l3" "entry_v2.ModeL2 a = None"
      "entry_v2.ModeVwire a = None" "entry_v2.TapMode a = None" "entry_v2.HaMode a = None"
      "entry_v2.DecryptMirrorMode a = None" "entry_v2.AggregateGroupMode a = None"
    and k: "yes_no u (Enabled (l3Mode_v2.Ipv6 l3))" "yes_no u (l3Mode_v2.AdjustTcpMss l3)"
      "StrToEnt u (EntToStr u (l3Mode_v2.StaticIps l3)) = l3Mode_v2.StaticIps l3"
      "dhcp_kept u (l3Mode_v2.Dhcp l3)" "fragment_kept u (l3Mode_v2.Arp l3)"
      "fragment_kept u (l3Mode_v2.Subinterface l3)"
      "fragment_kept u (Address (l3Mode_v2.Ipv6 l3))"
  shows "roundtrip_v2 u \<lparr>container_v2.Answer = a\<rparr> =
           Inr (a\<lparr>entry_v2.XMLName := xml_Name_zero\<rparr>)"
proof -
  obtain i6 mp mt nf at v4 v6 si dh ar su where
    l3: "l3 = \<lparr>l3Mode_v2.Ipv6 = i6, l3Mode_v2.ManagementProfile = mp,
       l3Mode_v2.Mtu = mt, l3Mode_v2.NetflowProfile = nf, l3Mode_v2.AdjustTcpMss = at,
       l3Mode_v2.Ipv4MssAdjust = v4, l3Mode_v2.Ipv6MssAdjust = v6,
       l3Mode_v2.StaticIps = si, l3Mode_v2.Dhcp = dh, l3Mode_v2.Arp = ar,
       l3Mode_v2.Subinterface = su\<rparr>"
    by (cases l3)
  obtain en ad where i6: "i6 = \<lparr>Enabled = en, Address = ad\<rparr>"
    by (cases i6)
  show ?thesis
    using m k unfolding l3 i6
    by (cases a; cases dh; cases ar; cases su; cases ad)
      (simp_all add: roundtrip_v2_def Normalize_v2_def specify_v2_def Let_def keep_fragment_Some
        and_then_Inr raw_lookup_def zero_defs yes_no_def dhcp_rebuild fragment_rebuild)
qed

lemma roundtrip_v1_layer3:
  assumes m: "entry_v1.ModeL3 a = Some l3" "entry_v1.ModeL2 a = None"
      "entry_v1.ModeVwire a = None" "entry_v1.TapMode a = None" "entry_v1.HaMode a = None"
      "entry_v1.DecryptMirrorMode a = None" "entry_v1.AggregateGroupMode a = None"
    and k: "yes_no u (Enabled (l3Mode_v1.Ipv6 l3))" "yes_no u (l3Mode_v1.AdjustTcpMss l3)"
      "StrToEnt u (EntToStr u (l3Mode_v1.StaticIps l3)) = l3Mode_v1.StaticIps l3"
      "dhcp_kept u (l3Mode_v1.Dhcp l3)" "l3Mode_v1.Arp l3 = None"
      "l3Mode_v1.Subinterface l3 = None" "Address (l3Mode_v1.Ipv6 l3) = None"
  shows "roundtrip_v1 u \<lparr>container_v1.Answer = a\<rparr> =
           Inr (a\<lparr>entry_v1.XMLName := xml_Name_zero\<rparr>)"
proof -
  obtain i6 mp mt nf at si dh ar su where
    l3: "l3 = \<lparr>l3Mode_v1.Ipv6 = i6, l3Mode_v1.ManagementProfile = mp,
       l3Mode_v1.Mtu = mt, l3Mode_v1.NetflowProfile = nf, l3Mode_v1.AdjustTcpMss = at,
       l3Mode_v1.StaticIps = si, l3Mode_v1.Dhcp = dh, l3Mode_v1.Arp = ar,
       l3Mode_v1.Subinterface = su\<rparr>"
    by (cases l3)
  obtain en ad where i6: "i6 = \<lparr>Enabled = en, Address = ad\<rparr>"
    by (cases i6)
  show ?thesis
    using m k unfolding l3 i6
    by (cases a; cases dh)
      (simp_all add: roundtrip_v1_def Normalize_v1_def specify_v1_def Let_def
        keep_fragment_absent and_then_Inr raw_lookup_def zero_defs yes_no_def dhcp_rebuild)
qed

lemma roundtrip_v2_layer2:
  assumes m: "entry_v2.ModeL3 a = None" "entry_v2.ModeL2 a = Some l2"
      "entry_v2.ModeVwire a = None" "entry_v2.TapMode a = None" "entry_v2.HaMode a = None"
      "entry_v2.DecryptMirrorMode a = None" "entry_v2.AggregateGroupMode a = None"
    and k: "yes_no u (otherMode.LldpEnabled l2)" "fragment_kept u (otherMode.Subinterface l2)"
  shows "roundtrip_v2 u \<lparr>container_v2.Answer = a\<rparr> =
           Inr (a\<lparr>entry_v2.XMLName := xml_Name_zero\<rparr>)"
proof -
  obtain le lp nf su where
    l2: "l2 = \<lparr>otherMode.LldpEnabled = le, otherMode.LldpProfile = lp,
       otherMode.NetflowProfile = nf, otherMode.Subinterface = su\<rparr>"
    by (cases l2)
  show ?thesis
    using m k unfolding l2
    by (cases a; cases su)
      (simp_all add: roundtrip_v2_def Normalize_v2_def specify_v2_def Let_def keep_fragment_Some
        and_then_Inr raw_lookup_def zero_defs yes_no_def fragment_rebuild)
qed

lemma roundtrip_v1_layer2:
  assumes m: "entry_v1.ModeL3 a = None" "entry_v1.ModeL2 a = Some l2"
      "entry_v1.ModeVwire a = None" "entry_v1.TapMode a = None" "entry_v1.HaMode a = None"
      "entry_v1.DecryptMirrorMode a = None" "entry_v1.AggregateGroupMode a = None"
    and k: "yes_no u (otherMode.LldpEnabled l2)" "otherMode.Subinterface l2 = None"
  shows "roundtrip_v1 u \<lparr>container_v1.Answer = a\<rparr> =
           Inr (a\<lparr>entry_v1.XMLName := xml_Name_zero\<rparr>)"
proof -
  obtain le lp nf su where
    l2: "l2 = \<lparr>otherMode.LldpEnabled = le, otherMode.LldpProfile = lp,
       otherMode.NetflowProfile = nf, otherMode.Subinterface = su\<rparr>"
    by (cases l2)
  show ?thesis
    using m k unfolding l2
    by (cases a)
      (simp add: roundtrip_v1_def Normalize_v1_def specify_v1_def Let_def keep_fragment_absent
        and_then_Inr raw_lookup_def zero_defs yes_no_def)
qed

lemma roundtrip_v2_vwire:
  assumes m: "entry_v2.ModeL3 a = None" "entry_v2.ModeL2 a = None"
      "entry_v2.ModeVwire a = Some vw" "entry_v2.TapMode a = None" "entry_v2.HaMode a = None"
      "entry_v2.DecryptMirrorMode a = None" "entry_v2.AggregateGroupMode a = None"
    and k: "yes_no u (otherMode.LldpEnabled vw)" "otherMode.Subinterface vw = None"
  shows "roundtrip_v2 u \<lparr>container_v2.Answer = a\<rparr> =
           Inr (a\<lparr>entry_v2.XMLName := xml_Name_zero\<rparr>)"
proof -
  obtain le lp nf su where
    vw: "vw = \<lparr>otherMode.LldpEnabled = le, otherMode.LldpProfile = lp,
       otherMode.NetflowProfile = nf, otherMode.Subinterface = su\<rparr>"
    by (cases vw)
  show ?thesis
    using m k unfolding vw
    by (cases a)
      (simp add: roundtrip_v2_def Normalize_v2_def specify_v2_def Let_def
        and_then_Inr raw_lookup_def zero_defs yes_no_def)
qed

lemma roundtrip_v1_vwire:
  assumes m: "entry_v1.ModeL3 a = None" "entry_v1.ModeL2 a = None"
      "entry_v1.ModeVwire a = Some vw" "entry_v1.TapMode a = None" "entry_v1.HaMode a = None"
      "entry_v1.DecryptMirrorMode a = None" "entry_v1.AggregateGroupMode a = None"
    and k: "yes_no u (otherMode.LldpEnabled vw)" "otherMode.Subinterface vw = None"
  shows "roundtrip_v1 u \<lparr>container_v1.Answer = a\<rparr> =
           Inr (a\<lparr>entry_v1.XMLName := xml_Name_zero\<rparr>)"
proof -
  obtain le lp nf su where
    vw: "vw = \<lparr>otherMode.LldpEnabled = le, otherMode.LldpProfile = lp,
       otherMode.NetflowProfile = nf, otherMode.Subinterface = su\<rparr>"
    by (cases vw)
  show ?thesis
    using m k unfolding vw
    by (cases a)
      (simp add: roundtrip_v1_def Normalize_v1_def specify_v1_def Let_def
        and_then_Inr raw_lookup_def zero_defs yes_no_def)
qed

lemma roundtrip_v2_marker:
  assumes "entry_v2.ModeL3 a = None" "entry_v2.ModeL2 a = None" "entry_v2.ModeVwire a = None"
    and "exactly_one_mode (modes_v2 a)"
  shows "roundtrip_v2 u \<lparr>container_v2.Answer = a\<rparr> =
           Inr (a\<lparr>entry_v2.XMLName := xml_Name_zero\<rparr>)"
  using assms
  by (cases a)
    (auto simp add: modes_v2_def exactly_one_of_seven roundtrip_v2_def Normalize_v2_def
      specify_v2_def Let_def and_then_Inr zero_defs dest!: marker_absent)

lemma roundtrip_v1_marker:
  assumes "entry_v1.ModeL3 a = None" "entry_v1.ModeL2 a = None" "entry_v1.ModeVwire a = None"
    and "exactly_one_mode (modes_v1 a)"
  shows "roundtrip_v1 u \<lparr>container_v1.Answer = a\<rparr> =
           Inr (a\<lparr>entry_v1.XMLName := xml_Name_zero\<rparr>)"
  using assms
  by (cases a)
    (auto simp add: modes_v1_def exactly_one_of_seven roundtrip_v1_def Normalize_v1_def
      specify_v1_def Let_def and_then_Inr zero_defs dest!: marker_absent)

lemma roundtrip_v2_reproducible:
  assumes r: "reproducible_v2 u a"
  shows "roundtrip_v2 u \<lparr>container_v2.Answer = a\<rparr> =
           Inr (a\<lparr>entry_v2.XMLName := xml_Name_zero\<rparr>)"
proof -
  from r have one: "exactly_one_mode (modes_v2 a)"
    by (simp add: reproducible_v2_def)
  show ?thesis
  proof (cases "entry_v2.ModeL3 a")
    case (Some l3)
    with one have "entry_v2.ModeL2 a = None" "entry_v2.ModeVwire a = None"
        "entry_v2.TapMode a = None" "entry_v2.HaMode a = None"
        "entry_v2.DecryptMirrorMode a = None" "entry_v2.AggregateGroupMode a = None"
      by (auto simp add: modes_v2_def exactly_one_of_seven dest!: marker_absent)
    with Some r show ?thesis
      by (intro roundtrip_v2_layer3 [of a l3]) (simp_all add: reproducible_v2_def)
  next
    case l3: None
    show ?thesis
    proof (cases "entry_v2.ModeL2 a")
      case (Some l2)
      with one l3 have "entry_v2.ModeVwire a = None"
          "entry_v2.TapMode a = None" "entry_v2.HaMode a = None"
          "entry_v2.DecryptMirrorMode a = None" "entry_v2.AggregateGroupMode a = None"
        by (auto simp add: modes_v2_def exactly_one_of_seven dest!: marker_absent)
      with Some l3 r show ?thesis
        by (intro roundtrip_v2_layer2 [of a l2]) (simp_all add: reproducible_v2_def)
    next
      case l2: None
      show ?thesis
      proof (cases "entry_v2.ModeVwire a")
        case (Some vw)
        with one l3 l2 have "entry_v2.TapMode a = None" "entry_v2.HaMode a = None"
            "entry_v2.DecryptMirrorMode a = None" "entry_v2.AggregateGroupMode a = None"
          by (auto simp add: modes_v2_def exactly_one_of_seven dest!: marker_absent)
        with Some l3 l2 r show ?thesis
          by (intro roundtrip_v2_vwire [of a vw]) (simp_all add: reproducible_v2_def)
      next
        case None
        with l3 l2 one show ?thesis
          by (intro roundtrip_v2_marker)
      qed
    qed
  qed
qed

lemma roundtrip_v1_reproducible:
  assumes r: "reproducible_v1 u a"
  shows "roundtrip_v1 u \<lparr>container_v1.Answer = a\<rparr> =
           Inr (a\<lparr>entry_v1.XMLName := xml_Name_zero\<rparr>)"
proof -
  from r have one: "exactly_one_mode (modes_v1 a)"
    by (simp add: reproducible_v1_def)
  show ?thesis
  proof (cases "entry_v1.ModeL3 a")
    case (Some l3)
    with one have "entry_v1.ModeL2 a = None" "entry_v1.ModeVwire a = None"
        "entry_v1.TapMode a = None" "entry_v1.HaMode a = None"
        "entry_v1.DecryptMirrorMode a = None" "entry_v1.AggregateGroupMode a = None"
      by (auto simp add: modes_v1_def exactly_one_of_seven dest!: marker_absent)
    with Some r show ?thesis
      by (intro roundtrip_v1_layer3 [of a l3]) (simp_all add: reproducible_v1_def)
  next
    case l3: None
    show ?thesis
    proof (cases "entry_v1.ModeL2 a")
      case (Some l2)
      with one l3 have "entry_v1.ModeVwire a = None"
          "entry_v1.TapMode a = None" "entry_v1.HaMode a = None"
          "entry_v1.DecryptMirrorMode a = None" "entry_v1.AggregateGroupMode a = None"
        by (auto simp add: modes_v1_def exactly_one_of_seven dest!: marker_absent)
      with Some l3 r show ?thesis
        by (intro roundtrip_v1_layer2 [of a l2]) (simp_all add: reproducible_v1_def)
    next
      case l2: None
      show ?thesis
      proof (cases "entry_v1.ModeVwire a")
        case (Some vw)
        with one l3 l2 have "entry_v1.TapMode a = None" "entry_v1.HaMode a = None"
            "entry_v1.DecryptMirrorMode a = None" "entry_v1.AggregateGroupMode a = None"
          by (auto simp add: modes_v1_def exactly_one_of_seven dest!: marker_absent)
        with Some l3 l2 r show ?thesis
          by (intro roundtrip_v1_vwire [of a vw]) (simp_all add: reproducible_v1_def)
      next
        case None
        with l3 l2 one show ?thesis
          by (intro roundtrip_v1_marker)
      qed
    qed
  qed
qed

text \<open>
  C1, as the code has it. For a well-formed wire object whose flags are yes/no
  texts, whose address list the list conversions reproduce, whose DHCP block (if
  any) has a field that is on or not zero, whose fragments the cleaning step
  leaves unchanged and which has no subinterfaces under virtual-wire, specify
  after Normalize returns the wire object again, with the element name left at
  its zero value. For v2 this holds with fragments (they come back text for
  text); for v1 it is stated for wire objects without fragments.
\<close>

theorem roundtrip_reproducible:
  "(reproducible_v1 u (container_v1.Answer c1) \<longrightarrow>
      roundtrip_v1 u c1 = Inr ((container_v1.Answer c1)\<lparr>entry_v1.XMLName := xml_Name_zero\<rparr>))
   \<and> (reproducible_v2 u (container_v2.Answer c2) \<longrightarrow>
      roundtrip_v2 u c2 = Inr ((container_v2.Answer c2)\<lparr>entry_v2.XMLName := xml_Name_zero\<rparr>))"
proof -
  have c1: "c1 = \<lparr>container_v1.Answer = container_v1.Answer c1\<rparr>"
    by (cases c1) simp
  have c2: "c2 = \<lparr>container_v2.Answer = container_v2.Answer c2\<rparr>"
    by (cases c2) simp
  from roundtrip_v1_reproducible [of u "container_v1.Answer c1"]
       roundtrip_v2_reproducible [of u "container_v2.Answer c2"] c1 c2
  show ?thesis by simp
qed

theorem roundtrip_reproducible_witness:
  "roundtrip_v1 util_sample l2_v1 = Inr (container_v1.Answer l2_v1)
   \<and> roundtrip_v2 util_sample arp_v2 = Inr (container_v2.Answer arp_v2)"
proof -
  have r1: "reproducible_v1 util_sample (container_v1.Answer l2_v1)"
    by (simp add: reproducible_v1_def l2_v1_def modes_v1_def exactly_one_mode_def yes_no_def
        util_sample_def zero_defs)
  have r2: "reproducible_v2 util_sample (container_v2.Answer arp_v2)"
    by (simp add: reproducible_v2_def arp_v2_def modes_v2_def exactly_one_mode_def yes_no_def
        dhcp_kept_def fragment_kept_def util_sample_def zero_defs)
  have x1: "(container_v1.Answer l2_v1)\<lparr>entry_v1.XMLName := xml_Name_zero\<rparr> =
              container_v1.Answer l2_v1"
    by (simp add: l2_v1_def zero_defs)
  have x2: "(container_v2.Answer arp_v2)\<lparr>entry_v2.XMLName := xml_Name_zero\<rparr> =
              container_v2.Answer arp_v2"
    by (simp add: arp_v2_def zero_defs)
  from roundtrip_reproducible [where u = util_sample and ?c1.0 = l2_v1 and ?c2.0 = arp_v2]
       r1 r2 x1 x2
  show ?thesis by simp
qed

text \<open>
  C1, as the claim states it, fails. This v2 wire object is well formed (layer3
  alone is present) and has a DHCP block with enable "no", create-default-route
  "no" and metric 0. Normalize reads three zero fields from it, specify builds no
  DHCP block from them, and the wire object that comes back has none.
\<close>

theorem roundtrip_counterexample:
  "exactly_one_mode (modes_v2 (container_v2.Answer dhcp_off_v2))
   \<and> roundtrip_v2 util_sample dhcp_off_v2 =
       Inr ((container_v2.Answer dhcp_off_v2)
              \<lparr>entry_v2.ModeL3 := Some (l3_dhcp_off\<lparr>l3Mode_v2.Dhcp := None\<rparr>)\<rparr>)
   \<and> roundtrip_v2 util_sample dhcp_off_v2 \<noteq> Inr (container_v2.Answer dhcp_off_v2)"
  by (simp add: exactly_one_mode_def modes_v2_def dhcp_off_v2_def l3_dhcp_off_def
      roundtrip_v2_def Normalize_v2_def specify_v2_def Let_def and_then_Inr
      keep_fragment_absent raw_lookup_def util_sample_def zero_defs)

end
